theory Spec2Isabelle
  imports Main "HOL-Library.Word" "HOL-Library.AList"
begin

unbundle bit_operations_syntax

section \<open>JavaScript values\<close>

text \<open>
  A JavaScript string is a sequence of UTF-16 code units; a code unit is a natural
  number here. \<open>js\<close> turns an ASCII literal into such a sequence.
\<close>

type_synonym jstring = "nat list"

definition js :: "string \<Rightarrow> jstring" where
  "js s = map of_char s"

text \<open>
  The values that reach the synchronizer: they come out of a message or of
  \<^verbatim>\<open>JSON.parse\<close>, or are built by the code itself. A number is its IEEE 754
  binary64 bit pattern; a \<^verbatim>\<open>Date\<close> is its time value, a number too. An object is
  the list of its own enumerable properties in the order of \<^verbatim>\<open>Object.keys\<close>;
  members inherited from \<^verbatim>\<open>Object.prototype\<close> (and the accessor
  \<^verbatim>\<open>__proto__\<close>) are not modelled.
\<close>

datatype jsval =
    JUndefined
  | JNull
  | JBool bool
  | JNum "64 word"
  | JStr jstring
  | JArr "jsval list"
  | JObj "(jstring \<times> jsval) list"
  | JDate "64 word"

definition isNaN :: "64 word \<Rightarrow> bool" where
  "isNaN d \<longleftrightarrow>
     d AND 0x7FF0000000000000 = 0x7FF0000000000000 \<and> d AND 0x000FFFFFFFFFFFFF \<noteq> 0"

definition isZero :: "64 word \<Rightarrow> bool" where
  "isZero d \<longleftrightarrow> d AND 0x7FFFFFFFFFFFFFFF = 0"

text \<open>\<^verbatim>\<open>ToBoolean\<close>: what \<^verbatim>\<open>if (v)\<close>, \<^verbatim>\<open>!v\<close> and \<^verbatim>\<open>a && b\<close> test.\<close>

fun truthy :: "jsval \<Rightarrow> bool" where
  "truthy JUndefined = False"
| "truthy JNull = False"
| "truthy (JBool b) = b"
| "truthy (JNum d) = (\<not> isNaN d \<and> \<not> isZero d)"
| "truthy (JStr s) = (s \<noteq> [])"
| "truthy (JArr xs) = True"
| "truthy (JObj kvs) = True"
| "truthy (JDate t) = True"

fun typeof :: "jsval \<Rightarrow> jstring" where
  "typeof JUndefined = js ''undefined''"
| "typeof JNull = js ''object''"
| "typeof (JBool b) = js ''boolean''"
| "typeof (JNum d) = js ''number''"
| "typeof (JStr s) = js ''string''"
| "typeof (JArr xs) = js ''object''"
| "typeof (JObj kvs) = js ''object''"
| "typeof (JDate t) = js ''object''"

fun isString :: "jsval \<Rightarrow> bool" where
  "isString (JStr s) = True"
| "isString v = False"

fun isArray :: "jsval \<Rightarrow> bool" where
  "isArray (JArr xs) = True"
| "isArray v = False"

text \<open>Reading a property of an object given by its properties: \<^verbatim>\<open>o[k]\<close>.\<close>

definition getProp :: "(jstring \<times> jsval) list \<Rightarrow> jstring \<Rightarrow> jsval" where
  "getProp ob k = (case map_of ob k of None \<Rightarrow> JUndefined | Some v \<Rightarrow> v)"

text \<open>
  \<^verbatim>\<open>v.url\<close> and the like on any value that is not \<^verbatim>\<open>null\<close> or
  \<^verbatim>\<open>undefined\<close>: only an object has properties of its own under such a name.
\<close>

fun propOf :: "jsval \<Rightarrow> jstring \<Rightarrow> jsval" where
  "propOf (JObj kvs) k = getProp kvs k"
| "propOf v k = JUndefined"

subsection \<open>Property order\<close>

text \<open>
  \<^verbatim>\<open>Object.keys\<close> and \<^verbatim>\<open>Object.entries\<close> list the keys that are array indices
  (canonical decimal numerals below \<open>2\<^sup>3\<^sup>2 - 1\<close>) first, in ascending order, and
  then the other keys in the order they were created. \<open>objSet\<close> is the assignment
  \<^verbatim>\<open>o[k] = v\<close>: it replaces the value of a key the object has, and else creates the
  property at its place in that order.
\<close>

definition isDigit :: "nat \<Rightarrow> bool" where
  "isDigit c \<longleftrightarrow> 48 \<le> c \<and> c \<le> 57"

definition indexValue :: "jstring \<Rightarrow> nat" where
  "indexValue k = foldl (\<lambda>n c. 10 * n + (c - 48)) 0 k"

definition isArrayIndex :: "jstring \<Rightarrow> bool" where
  "isArrayIndex k \<longleftrightarrow>
     k \<noteq> [] \<and> list_all isDigit k \<and> (k = [48] \<or> hd k \<noteq> 48) \<and> indexValue k < 4294967295"

fun insertIndexKey :: "jstring \<Rightarrow> 'a \<Rightarrow> (jstring \<times> 'a) list \<Rightarrow> (jstring \<times> 'a) list" where
  "insertIndexKey k v [] = [(k, v)]"
| "insertIndexKey k v (p # ps) =
     (if isArrayIndex (fst p) \<and> indexValue (fst p) < indexValue k
      then p # insertIndexKey k v ps
      else (k, v) # p # ps)"

definition objSet :: "(jstring \<times> 'a) list \<Rightarrow> jstring \<Rightarrow> 'a \<Rightarrow> (jstring \<times> 'a) list" where
  "objSet ob k v =
     (if isArrayIndex k \<and> map_of ob k = None then insertIndexKey k v ob
      else AList.update k v ob)"

subsection \<open>String operations\<close>

text \<open>
  The code units that \<^verbatim>\<open>\\s\<close> matches and \<^verbatim>\<open>trim\<close> removes: the white space
  and line terminators of ECMAScript.
\<close>

definition isSpace :: "nat \<Rightarrow> bool" where
  "isSpace c \<longleftrightarrow>
     c \<in> {9, 10, 11, 12, 13, 32, 160, 5760, 8232, 8233, 8239, 8287, 12288, 65279}
     \<or> (8192 \<le> c \<and> c \<le> 8202)"

definition trim :: "jstring \<Rightarrow> jstring" where
  "trim s = rev (dropWhile isSpace (rev (dropWhile isSpace s)))"

definition startsWith :: "jstring \<Rightarrow> jstring \<Rightarrow> bool" where
  "startsWith s p \<longleftrightarrow> take (length p) s = p"

text \<open>\<^verbatim>\<open>s.includes(p)\<close>.\<close>

fun includesStr :: "jstring \<Rightarrow> jstring \<Rightarrow> bool" where
  "includesStr [] p = (p = [])"
| "includesStr (c # cs) p = (startsWith (c # cs) p \<or> includesStr cs p)"

text \<open>\<^verbatim>\<open>s.split(sep)\<close> for a separator of one code unit.\<close>

fun splitOn :: "nat \<Rightarrow> jstring \<Rightarrow> jstring list" where
  "splitOn sep [] = [[]]"
| "splitOn sep (c # cs) =
     (if c = sep then [] # splitOn sep cs
      else (case splitOn sep cs of [] \<Rightarrow> [[c]] | p # ps \<Rightarrow> (c # p) # ps))"

text \<open>
  \<^verbatim>\<open>toLowerCase\<close> on the letters A to Z. The code compares its result only with
  ASCII words (\<^verbatim>\<open>includes('tag')\<close>, \<^verbatim>\<open>=== 'true'\<close>); no code unit outside
  ASCII maps to one of their letters next to the following letter of the word, so on
  those tests this agrees with the full Unicode mapping.
\<close>

definition lowerChar :: "nat \<Rightarrow> nat" where
  "lowerChar c = (if 65 \<le> c \<and> c \<le> 90 then c + 32 else c)"

definition toLowerCase :: "jstring \<Rightarrow> jstring" where
  "toLowerCase s = map lowerChar s"

definition isQuote :: "nat \<Rightarrow> bool" where
  "isQuote c \<longleftrightarrow> c = 34 \<or> c = 39"

section \<open>FieldMapper (background.js)\<close>

subsection \<open>sanitizeValue\<close>

text \<open>
  The string branch of \<^verbatim>\<open>sanitizeValue\<close>, step by step as the source has it:
  \<^verbatim>\<open>trim()\<close>; \<^verbatim>\<open>replace(/^["']|["']$/g, '')\<close>, which removes one quote at the
  start and one at the end of what is left; \<^verbatim>\<open>replace(/\0/g, '')\<close>;
  \<^verbatim>\<open>replace(/\s+/g, ' ')\<close>, which puts one space for every maximal run of white
  space; and the cut at \<^verbatim>\<open>maxLength\<close>.
\<close>

definition stripOneQuote :: "jstring \<Rightarrow> jstring" where
  "stripOneQuote s =
     (let s1 = (case s of [] \<Rightarrow> [] | c # cs \<Rightarrow> if isQuote c then cs else s)
      in if s1 \<noteq> [] \<and> isQuote (last s1) then butlast s1 else s1)"

definition removeNul :: "jstring \<Rightarrow> jstring" where
  "removeNul s = filter (\<lambda>c. c \<noteq> 0) s"

text \<open>The flag of \<open>collapse\<close> says that the code unit before was white space.\<close>

fun collapse :: "bool \<Rightarrow> jstring \<Rightarrow> jstring" where
  "collapse inRun [] = []"
| "collapse inRun (c # cs) =
     (if isSpace c then (if inRun then collapse True cs else 32 # collapse True cs)
      else c # collapse False cs)"

definition collapseSpaces :: "jstring \<Rightarrow> jstring" where
  "collapseSpaces s = collapse False s"

definition maxLength :: nat where
  "maxLength = 100000"

definition sanitizeString :: "jstring \<Rightarrow> jstring" where
  "sanitizeString s =
     (let sanitized = collapseSpaces (removeNul (stripOneQuote (trim s)))
      in if length sanitized > maxLength then take maxLength sanitized else sanitized)"

fun sanitizeValue :: "jsval \<Rightarrow> jsval" where
  "sanitizeValue JUndefined = JNull"
| "sanitizeValue JNull = JNull"
| "sanitizeValue (JStr s) = JStr (sanitizeString s)"
| "sanitizeValue (JArr xs) = JArr (map sanitizeValue xs)"
| "sanitizeValue (JObj kvs) = JObj (map (\<lambda>(k, v). (k, sanitizeValue v)) kvs)"
| "sanitizeValue v = v"

subsection \<open>mapContactDataToAirtable\<close>

definition defaultMappings :: "(jstring \<times> jstring) list" where
  "defaultMappings =
     [(js ''fullName'', js ''Name''),
      (js ''jobTitle'', js ''Job Title''),
      (js ''company'', js ''Company''),
      (js ''location'', js ''Location''),
      (js ''email'', js ''Email''),
      (js ''phone'', js ''Phone''),
      (js ''profileUrl'', js ''LinkedIn URL''),
      (js ''profilePicture'', js ''Profile Picture''),
      (js ''tags'', js ''Tag''),
      (js ''notes'', js ''Notes''),
      (js ''contactDate'', js ''Contact Date''),
      (js ''followUpDate'', js ''Follow Up On'')]"

text \<open>
  \<^verbatim>\<open>{ ...a, ...b }\<close> copies the properties of \<^verbatim>\<open>a\<close> and then those of
  \<^verbatim>\<open>b\<close> into a new object, each by an assignment. A user mapping gives an external
  field name, a string, to a canonical key; a missing mapping
  (\<^verbatim>\<open>fieldMappings || {}\<close> in \<^verbatim>\<open>saveToAirtable\<close>) is the empty list.
\<close>

definition spread :: "(jstring \<times> 'a) list \<Rightarrow> (jstring \<times> 'a) list \<Rightarrow> (jstring \<times> 'a) list" where
  "spread ob src = foldl (\<lambda>acc p. objSet acc (fst p) (snd p)) ob src"

definition mergedMappings :: "(jstring \<times> jstring) list \<Rightarrow> (jstring \<times> jstring) list" where
  "mergedMappings fieldMappings = spread (spread [] defaultMappings) fieldMappings"

text \<open>The body of the \<^verbatim>\<open>forEach\<close> over \<^verbatim>\<open>Object.keys(mappings)\<close>.\<close>

definition mapStep ::
  "(jstring \<times> jsval) list \<Rightarrow> (jstring \<times> jsval) list \<Rightarrow> jstring \<times> jstring \<Rightarrow> (jstring \<times> jsval) list" where
  "mapStep contactData fields m =
     (let dataKey = fst m; airtableField = snd m in
      if airtableField \<noteq> [] \<and> truthy (getProp contactData dataKey)
         \<and> getProp contactData dataKey \<noteq> JStr []
      then objSet fields airtableField (sanitizeValue (getProp contactData dataKey))
      else fields)"

definition mapContactDataToAirtable ::
  "(jstring \<times> jsval) list \<Rightarrow> (jstring \<times> jstring) list \<Rightarrow> (jstring \<times> jsval) list" where
  "mapContactDataToAirtable contactData fieldMappings =
     foldl (mapStep contactData) [] (mergedMappings fieldMappings)"

subsection \<open>Assignments keep the other properties\<close>

lemma set_insertIndexKey: "set (insertIndexKey k v ps) = insert (k, v) (set ps)"
  by (induction ps) auto

lemma set_update_subset: "set (AList.update k v ps) \<subseteq> insert (k, v) (set ps)"
  by (induction ps) auto

lemma set_objSet_subset: "set (objSet ob k v) \<subseteq> insert (k, v) (set ob)"
  by (simp add: objSet_def set_insertIndexKey set_update_subset)

lemma keys_update: "fst ` set (AList.update k v ps) = insert k (fst ` set ps)"
  by (induction ps) auto

lemma keys_objSet: "fst ` set (objSet ob k v) = insert k (fst ` set ob)"
  by (simp add: objSet_def set_insertIndexKey keys_update)

lemma map_of_insertIndexKey:
  "map_of ps k = None \<Longrightarrow> map_of (insertIndexKey k v ps) = (map_of ps)(k \<mapsto> v)"
  by (induction ps) (auto simp: fun_upd_twist split: if_splits)

lemma map_of_objSet: "map_of (objSet ob k v) = (map_of ob)(k \<mapsto> v)"
  by (simp add: objSet_def map_of_insertIndexKey AList.update_conv')



subsection \<open>What sanitizeValue establishes\<close>

text \<open>
  \<open>allStrings P v\<close>: every string in \<open>v\<close>, at any depth inside arrays and the values
  of objects, satisfies \<open>P\<close>. \<open>noRun\<close>: no two adjacent code units are white space.
  \<open>trimmed\<close>: no white space at the start or the end. \<open>plain\<close> describes an input
  string that the steps after \<^verbatim>\<open>trim\<close> leave as it is, up to the collapsing of
  white space.
\<close>

fun allStrings :: "(jstring \<Rightarrow> bool) \<Rightarrow> jsval \<Rightarrow> bool" where
  "allStrings P (JStr s) = P s"
| "allStrings P (JArr xs) = list_all (allStrings P) xs"
| "allStrings P (JObj kvs) = list_all (\<lambda>p. allStrings P (snd p)) kvs"
| "allStrings P v = True"

fun noRun :: "jstring \<Rightarrow> bool" where
  "noRun (c # d # cs) = (\<not> (isSpace c \<and> isSpace d) \<and> noRun (d # cs))"
| "noRun cs = True"

definition sanitized :: "jstring \<Rightarrow> bool" where
  "sanitized s \<longleftrightarrow> 0 \<notin> set s \<and> noRun s \<and> length s \<le> 100000"

definition trimmed :: "jstring \<Rightarrow> bool" where
  "trimmed s \<longleftrightarrow> s = [] \<or> (\<not> isSpace (hd s) \<and> \<not> isSpace (last s))"

definition plain :: "jstring \<Rightarrow> bool" where
  "plain s \<longleftrightarrow> 0 \<notin> set s \<and> length s \<le> 100000
     \<and> (trim s = [] \<or> (\<not> isQuote (hd (trim s)) \<and> \<not> isQuote (last (trim s))))"

lemma set_collapse: "set (collapse b s) \<subseteq> insert 32 (set s)"
  by (induction s arbitrary: b) auto

lemma length_collapse: "length (collapse b s) \<le> length s"
  by (induction s arbitrary: b) (auto simp: le_SucI)

lemma isSpace_32: "isSpace 32"
  by (simp add: isSpace_def)

lemma collapse_noRun:
  "noRun (collapse b s) \<and> (b \<longrightarrow> collapse b s = [] \<or> \<not> isSpace (hd (collapse b s)))"
proof (induction s arbitrary: b)
  case Nil
  show ?case by simp
next
  case (Cons c cs)
  show ?case
  proof (cases "isSpace c")
    case True
    have t: "noRun (collapse True cs)" "collapse True cs = [] \<or> \<not> isSpace (hd (collapse True cs))"
      using Cons.IH [of True] by auto
    have "noRun (32 # collapse True cs)"
      using t by (cases "collapse True cs") auto
    with t True show ?thesis by simp
  next
    case False
    have f: "noRun (collapse False cs)" using Cons.IH [of False] by simp
    have "noRun (c # collapse False cs)"
      using f False by (cases "collapse False cs") auto
    with False show ?thesis by simp
  qed
qed

lemma noRun_take: "noRun s \<Longrightarrow> noRun (take n s)"
proof (induction s arbitrary: n rule: noRun.induct)
  case (1 c d cs)
  show ?case
  proof (cases n)
    case 0 then show ?thesis by simp
  next
    case (Suc m)
    show ?thesis
    proof (cases m)
      case 0 with Suc show ?thesis by simp
    next
      case (Suc k)
      have "noRun (take m (d # cs))" using 1 by simp
      with \<open>n = Suc m\<close> Suc 1 show ?thesis by simp
    qed
  qed
qed (simp_all add: take_Cons')

lemma sanitizeString_sanitized: "sanitized (sanitizeString s)"
proof -
  let ?t = "collapseSpaces (removeNul (stripOneQuote (trim s)))"
  have a: "0 \<notin> set ?t"
    using set_collapse [of False "removeNul (stripOneQuote (trim s))"]
    by (auto simp: collapseSpaces_def removeNul_def)
  have b: "noRun ?t"
    using collapse_noRun [of False] by (simp add: collapseSpaces_def)
  have c: "0 \<notin> set (take maxLength ?t)"
    using a by (meson in_set_takeD)
  show ?thesis
    using a b c noRun_take [OF b, of maxLength]
    by (simp add: sanitized_def sanitizeString_def Let_def maxLength_def)
qed

lemma allStrings_sanitizeValue:
  "(\<And>s. P (sanitizeString s)) \<Longrightarrow> allStrings P (sanitizeValue v)"
  by (induction v rule: sanitizeValue.induct) (auto simp: list_all_iff)

lemma allStrings_sanitizeValue_cond:
  "(\<And>s. P s \<Longrightarrow> Q (sanitizeString s)) \<Longrightarrow> allStrings P v \<Longrightarrow> allStrings Q (sanitizeValue v)"
  by (induction v rule: sanitizeValue.induct) (auto simp: list_all_iff)

lemma last_dropWhile: "dropWhile P xs \<noteq> [] \<Longrightarrow> last (dropWhile P xs) = last xs"
  by (induction xs) (auto split: if_splits)

lemma dropWhile_rev_nonempty: "dropWhile P (rev u) \<noteq> [] \<Longrightarrow> u \<noteq> []"
  by auto

lemma trim_trimmed: "trimmed (trim s)"
proof -
  let ?u = "dropWhile isSpace s"
  let ?w = "dropWhile isSpace (rev ?u)"
  show ?thesis
  proof (cases "?w = []")
    case True
    then show ?thesis by (simp add: trimmed_def trim_def)
  next
    case False
    have u: "?u \<noteq> []"
      using False by (rule dropWhile_rev_nonempty)
    have 1: "\<not> isSpace (hd ?w)" using False by (rule hd_dropWhile)
    have "last ?w = last (rev ?u)" using False by (rule last_dropWhile)
    also have "\<dots> = hd ?u" using u by (simp add: last_rev)
    finally have 2: "\<not> isSpace (last ?w)" using hd_dropWhile [OF u] by simp
    show ?thesis using False 1 2
      by (simp add: trimmed_def trim_def hd_rev last_rev)
  qed
qed

lemma collapse_hd: "s \<noteq> [] \<Longrightarrow> \<not> isSpace (hd s) \<Longrightarrow> collapse b s \<noteq> [] \<and> hd (collapse b s) = hd s"
  by (cases s) auto

lemma collapse_last:
  "s \<noteq> [] \<Longrightarrow> \<not> isSpace (last s) \<Longrightarrow> collapse b s \<noteq> [] \<and> last (collapse b s) = last s"
  by (induction s arbitrary: b) (auto split: if_splits)

lemma set_trim: "set (trim s) \<subseteq> set s"
  unfolding trim_def by (metis set_dropWhileD set_rev subsetI)

lemma length_trim: "length (trim s) \<le> length s"
  unfolding trim_def by (metis length_dropWhile_le length_rev le_trans)

lemma sanitizeString_trimmed: "plain s \<Longrightarrow> trimmed (sanitizeString s)"
proof -
  assume p: "plain s"
  let ?t = "trim s"
  have q: "stripOneQuote ?t = ?t"
    using p by (cases ?t) (auto simp: plain_def stripOneQuote_def Let_def)
  have "0 \<notin> set ?t"
    using p set_trim [of s] by (auto simp: plain_def)
  then have "\<forall>x\<in>set ?t. x \<noteq> 0" by metis
  then have n: "removeNul ?t = ?t"
    unfolding removeNul_def filter_id_conv .
  have l: "length (collapse False ?t) \<le> maxLength"
    using p length_collapse [of False ?t] length_trim [of s]
    by (simp add: plain_def maxLength_def)
  have e: "sanitizeString s = collapse False ?t"
    using l by (simp add: sanitizeString_def q n collapseSpaces_def Let_def)
  show ?thesis
  proof (cases "?t = []")
    case True
    then show ?thesis by (simp add: e trimmed_def)
  next
    case False
    then have "\<not> isSpace (hd ?t)" "\<not> isSpace (last ?t)"
      using trim_trimmed [of s] by (auto simp: trimmed_def)
    with False show ?thesis
      using collapse_hd [of ?t False] collapse_last [of ?t False]
      by (simp add: e trimmed_def)
  qed
qed

subsection \<open>The mapped object\<close>

lemma foldl_skip:
  "(\<And>acc m. m \<in> set ms \<Longrightarrow> \<not> P m \<Longrightarrow> g acc m = acc) \<Longrightarrow> foldl g acc ms = foldl g acc (filter P ms)"
  by (induction ms arbitrary: acc) auto

lemma mapStep_keys:
  "fst ` set (mapStep cd fs m) \<subseteq> fst ` set fs \<union> (if truthy (getProp cd (fst m)) then {snd m} else {})"
  by (auto simp: mapStep_def Let_def keys_objSet)

lemma foldl_mapStep_keys:
  "f \<in> fst ` set (foldl (mapStep cd) acc ms) \<Longrightarrow>
   f \<in> fst ` set acc \<or> (\<exists>m\<in>set ms. snd m = f \<and> truthy (getProp cd (fst m)))"
proof (induction ms arbitrary: acc)
  case Nil
  then show ?case by simp
next
  case (Cons m ms)
  from Cons.prems have "f \<in> fst ` set (foldl (mapStep cd) (mapStep cd acc m) ms)" by simp
  from Cons.IH [OF this] show ?case
    using mapStep_keys [of cd acc m] by (auto split: if_splits)
qed

lemma mapStep_values:
  "list_all (\<lambda>p. Q (snd p)) fs \<Longrightarrow>
   (truthy (getProp cd (fst m)) \<Longrightarrow> Q (sanitizeValue (getProp cd (fst m)))) \<Longrightarrow>
   list_all (\<lambda>p. Q (snd p)) (mapStep cd fs m)"
  using set_objSet_subset [of fs "snd m" "sanitizeValue (getProp cd (fst m))"]
  by (auto simp: mapStep_def Let_def list_all_iff)

lemma foldl_mapStep_values:
  "list_all (\<lambda>p. Q (snd p)) acc \<Longrightarrow>
   (\<And>k. truthy (getProp cd k) \<Longrightarrow> Q (sanitizeValue (getProp cd k))) \<Longrightarrow>
   list_all (\<lambda>p. Q (snd p)) (foldl (mapStep cd) acc ms)"
  by (induction ms arbitrary: acc) (simp_all add: mapStep_values)

lemma getProp_in_set:
  "truthy (getProp cd k) \<Longrightarrow> \<exists>p \<in> set cd. snd p = getProp cd k"
  by (cases "map_of cd k") (force simp: getProp_def dest: map_of_SomeD)+

lemma mapStep_entries:
  "(f, v) \<in> set (mapStep cd fs m) \<Longrightarrow>
   (f, v) \<in> set fs \<or> (snd m = f \<and> truthy (getProp cd (fst m)) \<and> v = sanitizeValue (getProp cd (fst m)))"
  using set_objSet_subset [of fs "snd m" "sanitizeValue (getProp cd (fst m))"]
  by (auto simp: mapStep_def Let_def split: if_splits)

lemma foldl_mapStep_entries:
  "(f, v) \<in> set (foldl (mapStep cd) acc ms) \<Longrightarrow>
   (f, v) \<in> set acc \<or>
   (\<exists>m\<in>set ms. snd m = f \<and> truthy (getProp cd (fst m)) \<and> v = sanitizeValue (getProp cd (fst m)))"
proof (induction ms arbitrary: acc)
  case Nil
  then show ?case by simp
next
  case (Cons m ms)
  from Cons.prems have "(f, v) \<in> set (foldl (mapStep cd) (mapStep cd acc m) ms)" by simp
  from Cons.IH [OF this] show ?case
    using mapStep_entries [of f v cd acc m] by auto
qed

lemma mapStep_keeps: "f \<in> fst ` set fs \<Longrightarrow> f \<in> fst ` set (mapStep cd fs m)"
  by (simp add: mapStep_def Let_def keys_objSet)

lemma foldl_mapStep_keeps: "f \<in> fst ` set acc \<Longrightarrow> f \<in> fst ` set (foldl (mapStep cd) acc ms)"
  by (induction ms arbitrary: acc) (simp_all add: mapStep_keeps)

lemma mapStep_sets:
  "snd m \<noteq> [] \<Longrightarrow> truthy (getProp cd (fst m)) \<Longrightarrow> snd m \<in> fst ` set (mapStep cd fs m)"
  by (cases "getProp cd (fst m)") (auto simp: mapStep_def Let_def keys_objSet)

lemma foldl_mapStep_sets:
  "m \<in> set ms \<Longrightarrow> snd m \<noteq> [] \<Longrightarrow> truthy (getProp cd (fst m)) \<Longrightarrow>
   snd m \<in> fst ` set (foldl (mapStep cd) acc ms)"
proof (induction ms arbitrary: acc)
  case Nil
  then show ?case by simp
next
  case (Cons a ms)
  show ?case
  proof (cases "m = a")
    case True
    with Cons.prems have "snd m \<in> fst ` set (mapStep cd acc a)" by (simp add: mapStep_sets)
    then show ?thesis by (simp add: foldl_mapStep_keeps)
  next
    case False
    with Cons.prems have "m \<in> set ms" by simp
    from Cons.IH [OF this Cons.prems(2,3)] show ?thesis by simp
  qed
qed

lemma mapStep_nonempty_name: "[] \<notin> fst ` set fs \<Longrightarrow> [] \<notin> fst ` set (mapStep cd fs m)"
  by (auto simp: mapStep_def Let_def keys_objSet)


text \<open>
  C7, as amended. A canonical key whose value in the Record is the empty string,
  \<^verbatim>\<open>null\<close> or \<^verbatim>\<open>undefined\<close> (a key the Record does not have reads as
  \<^verbatim>\<open>undefined\<close>) contributes nothing to the mapped object: the object is the one the
  loop builds when it skips that key. An external field name is not a property of the
  mapped object exactly when it is empty or every other canonical key that the mapping
  gives this name to has no value either; and when the name is a property, its value is
  the sanitized value of such another key. So the external name of the empty key is
  absent unless the mapping gives the same name to another key that has a value.
\<close>

theorem mapper_omits_empty_key:
  assumes "getProp contactData k = JStr [] \<or> getProp contactData k = JNull
           \<or> getProp contactData k = JUndefined"
  shows "mapContactDataToAirtable contactData fieldMappings =
           foldl (mapStep contactData) [] (filter (\<lambda>m. fst m \<noteq> k) (mergedMappings fieldMappings))
         \<and> (map_of (mapContactDataToAirtable contactData fieldMappings) f = None \<longleftrightarrow>
              f = [] \<or> (\<forall>m \<in> set (mergedMappings fieldMappings).
                          snd m = f \<and> fst m \<noteq> k \<longrightarrow> \<not> truthy (getProp contactData (fst m))))
         \<and> (\<forall>v. (f, v) \<in> set (mapContactDataToAirtable contactData fieldMappings) \<longrightarrow>
              (\<exists>m \<in> set (mergedMappings fieldMappings).
                 snd m = f \<and> fst m \<noteq> k \<and> truthy (getProp contactData (fst m))
                 \<and> v = sanitizeValue (getProp contactData (fst m))))"
proof -
  let ?out = "mapContactDataToAirtable contactData fieldMappings"
  let ?ms = "mergedMappings fieldMappings"
  have falsy: "\<not> truthy (getProp contactData k)"
    using assms by auto
  have skip: "\<And>acc m. \<not> fst m \<noteq> k \<Longrightarrow> mapStep contactData acc m = acc"
    using falsy by (simp add: mapStep_def Let_def)
  have a: "?out = foldl (mapStep contactData) [] (filter (\<lambda>m. fst m \<noteq> k) ?ms)"
    unfolding mapContactDataToAirtable_def by (rule foldl_skip) (rule skip)
  have c: "\<exists>m \<in> set ?ms. snd m = f \<and> fst m \<noteq> k \<and> truthy (getProp contactData (fst m))
             \<and> v = sanitizeValue (getProp contactData (fst m))"
    if "(f, v) \<in> set ?out" for v
  proof -
    from that foldl_mapStep_entries [of f v contactData "[]" ?ms]
    obtain m where m: "m \<in> set ?ms" "snd m = f" "truthy (getProp contactData (fst m))"
      "v = sanitizeValue (getProp contactData (fst m))"
      by (auto simp: mapContactDataToAirtable_def)
    from m(3) falsy have "fst m \<noteq> k" by auto
    with m show ?thesis by blast
  qed
  have e: "[] \<notin> fst ` set ?out"
  proof -
    have "[] \<notin> fst ` set (foldl (mapStep contactData) acc ms)" if "[] \<notin> fst ` set acc" for acc ms
      using that by (induction ms arbitrary: acc) (simp_all add: mapStep_nonempty_name)
    from this [of "[]" ?ms] show ?thesis by (simp add: mapContactDataToAirtable_def)
  qed
  have b: "map_of ?out f = None \<longleftrightarrow>
      f = [] \<or> (\<forall>m \<in> set ?ms. snd m = f \<and> fst m \<noteq> k \<longrightarrow> \<not> truthy (getProp contactData (fst m)))"
  proof
    assume n: "map_of ?out f = None"
    show "f = [] \<or> (\<forall>m \<in> set ?ms. snd m = f \<and> fst m \<noteq> k \<longrightarrow> \<not> truthy (getProp contactData (fst m)))"
    proof (rule ccontr)
      assume "\<not> ?thesis"
      then obtain m where m: "f \<noteq> []" "m \<in> set ?ms" "snd m = f" "truthy (getProp contactData (fst m))"
        by auto
      from foldl_mapStep_sets [OF m(2), of contactData "[]"] m
      have "f \<in> fst ` set ?out" by (simp add: mapContactDataToAirtable_def)
      with n show False by (simp add: map_of_eq_None_iff)
    qed
  next
    assume r: "f = [] \<or> (\<forall>m \<in> set ?ms. snd m = f \<and> fst m \<noteq> k \<longrightarrow> \<not> truthy (getProp contactData (fst m)))"
    show "map_of ?out f = None"
    proof (rule ccontr)
      assume "map_of ?out f \<noteq> None"
      then obtain v where v: "(f, v) \<in> set ?out"
        by (auto dest: map_of_SomeD)
      then have "f \<in> fst ` set ?out" by force
      with e have "f \<noteq> []" by metis
      with r c [OF v] show False by auto
    qed
  qed
  from a b c show ?thesis by blast
qed



lemma mergedMappings_Nil: "mergedMappings [] = defaultMappings"
  by (simp add: mergedMappings_def spread_def defaultMappings_def objSet_def isArrayIndex_def
      isDigit_def js_def)

theorem mapper_omits_empty_key_witness:
  "getProp [(js ''fullName'', JStr (js ''Jane'')), (js ''company'', JStr [])] (js ''company'') = JStr []
   \<and> map_of (mapContactDataToAirtable
        [(js ''fullName'', JStr (js ''Jane'')), (js ''company'', JStr [])] []) (js ''Company'') = None
   \<and> map_of (mapContactDataToAirtable
        [(js ''fullName'', JStr (js ''Jane'')), (js ''company'', JStr [])] []) (js ''Name'')
       = Some (JStr (js ''Jane''))"
proof -
  let ?cd = "[(js ''fullName'', JStr (js ''Jane'')), (js ''company'', JStr [])]"
  have e: "getProp ?cd (js ''company'') = JStr []"
    by (simp add: getProp_def js_def)
  have only: "\<forall>m \<in> set (mergedMappings []). snd m = js ''Company'' \<and> fst m \<noteq> js ''company''
      \<longrightarrow> \<not> truthy (getProp ?cd (fst m))"
    by (simp add: mergedMappings_Nil defaultMappings_def js_def)
  have n: "map_of (mapContactDataToAirtable ?cd []) (js ''Company'') = None"
    using mapper_omits_empty_key [of ?cd "js ''company''" "[]" "js ''Company''"] e only by blast
  have v: "map_of (mapContactDataToAirtable ?cd []) (js ''Name'') = Some (JStr (js ''Jane''))"
    by (simp add: mapContactDataToAirtable_def mergedMappings_Nil defaultMappings_def objSet_def js_def
        isArrayIndex_def isDigit_def mapStep_def getProp_def sanitizeString_def trim_def isSpace_def
        stripOneQuote_def isQuote_def removeNul_def collapseSpaces_def maxLength_def)
  from e n v show ?thesis by blast
qed


lemma mergedMappings_company:
  "mergedMappings [(js ''company'', js ''Name'')] =
     [(js ''fullName'', js ''Name''),
      (js ''jobTitle'', js ''Job Title''),
      (js ''company'', js ''Name''),
      (js ''location'', js ''Location''),
      (js ''email'', js ''Email''),
      (js ''phone'', js ''Phone''),
      (js ''profileUrl'', js ''LinkedIn URL''),
      (js ''profilePicture'', js ''Profile Picture''),
      (js ''tags'', js ''Tag''),
      (js ''notes'', js ''Notes''),
      (js ''contactDate'', js ''Contact Date''),
      (js ''followUpDate'', js ''Follow Up On'')]"
  by (simp add: mergedMappings_def spread_def defaultMappings_def objSet_def isArrayIndex_def
      isDigit_def js_def)

text \<open>
  C7 as stated fails when two canonical keys share an external name: with the user
  mapping \<^verbatim>\<open>{company: 'Name'}\<close> and the Record \<^verbatim>\<open>{fullName: 'Jane', company: ''}\<close>
  the company is empty, and its external name \<^verbatim>\<open>Name\<close> is a property of the mapped
  object, with the value of \<^verbatim>\<open>fullName\<close>.
\<close>

theorem mapper_shared_name_counterexample:
  "getProp [(js ''fullName'', JStr (js ''Jane'')), (js ''company'', JStr [])] (js ''company'') = JStr []
   \<and> map_of (mergedMappings [(js ''company'', js ''Name'')]) (js ''company'') = Some (js ''Name'')
   \<and> mapContactDataToAirtable [(js ''fullName'', JStr (js ''Jane'')), (js ''company'', JStr [])]
        [(js ''company'', js ''Name'')] = [(js ''Name'', JStr (js ''Jane''))]"
proof -
  let ?cd = "[(js ''fullName'', JStr (js ''Jane'')), (js ''company'', JStr [])]"
  have e: "getProp ?cd (js ''company'') = JStr []"
    by (simp add: getProp_def js_def)
  have m: "map_of (mergedMappings [(js ''company'', js ''Name'')]) (js ''company'') = Some (js ''Name'')"
    unfolding mergedMappings_company by (simp add: js_def)
  have v: "mapContactDataToAirtable ?cd [(js ''company'', js ''Name'')] = [(js ''Name'', JStr (js ''Jane''))]"
    unfolding mapContactDataToAirtable_def mergedMappings_company
    by (simp add: objSet_def js_def
        isArrayIndex_def isDigit_def mapStep_def getProp_def sanitizeString_def trim_def isSpace_def
        stripOneQuote_def isQuote_def removeNul_def collapseSpaces_def maxLength_def)
  from e m v show ?thesis by blast
qed

text \<open>
  C8, as amended. Every string in a value of the mapped object, at any depth inside
  arrays and objects, has no null byte, no two adjacent white space code units and at
  most 100000 code units. It has no white space at its start or end when the strings of
  the Record have no null byte, at most 100000 code units and, once trimmed, no quote
  at their start or end.
\<close>

theorem mapped_strings_sanitized:
  "list_all (\<lambda>p. allStrings sanitized (snd p)) (mapContactDataToAirtable contactData fieldMappings)
   \<and> (list_all (\<lambda>p. allStrings plain (snd p)) contactData \<longrightarrow>
        list_all (\<lambda>p. allStrings trimmed (snd p)) (mapContactDataToAirtable contactData fieldMappings))"
proof -
  have a: "list_all (\<lambda>p. allStrings sanitized (snd p)) (mapContactDataToAirtable contactData fieldMappings)"
    unfolding mapContactDataToAirtable_def
    by (rule foldl_mapStep_values) (simp_all add: allStrings_sanitizeValue sanitizeString_sanitized)
  have b: "list_all (\<lambda>p. allStrings trimmed (snd p)) (mapContactDataToAirtable contactData fieldMappings)"
    if pl: "list_all (\<lambda>p. allStrings plain (snd p)) contactData"
    unfolding mapContactDataToAirtable_def
  proof (rule foldl_mapStep_values)
    show "list_all (\<lambda>p. allStrings trimmed (snd p)) []" by simp
  next
    fix k assume "truthy (getProp contactData k)"
    from getProp_in_set [OF this] pl have "allStrings plain (getProp contactData k)"
      by (auto simp: list_all_iff)
    then show "allStrings trimmed (sanitizeValue (getProp contactData k))"
      by (rule allStrings_sanitizeValue_cond [rotated]) (rule sanitizeString_trimmed)
  qed
  from a b show ?thesis by blast
qed

theorem mapped_strings_sanitized_witness:
  "list_all (\<lambda>p. allStrings plain (snd p)) [(js ''fullName'', JStr (js '' Jane  Doe ''))]
   \<and> mapContactDataToAirtable [(js ''fullName'', JStr (js '' Jane  Doe ''))] [] = [(js ''Name'', JStr (js ''Jane Doe''))]
   \<and> list_all (\<lambda>p. allStrings sanitized (snd p)) (mapContactDataToAirtable [(js ''fullName'', JStr (js '' Jane  Doe ''))] [])
   \<and> list_all (\<lambda>p. allStrings trimmed (snd p)) (mapContactDataToAirtable [(js ''fullName'', JStr (js '' Jane  Doe ''))] [])"
proof -
  let ?cd = "[(js ''fullName'', JStr (js '' Jane  Doe ''))]"
  have p: "list_all (\<lambda>p. allStrings plain (snd p)) ?cd"
    by (simp add: plain_def js_def trim_def isSpace_def isQuote_def)
  have v: "mapContactDataToAirtable ?cd [] = [(js ''Name'', JStr (js ''Jane Doe''))]"
    by (simp add: mapContactDataToAirtable_def mergedMappings_Nil defaultMappings_def objSet_def js_def
        isArrayIndex_def isDigit_def mapStep_def getProp_def sanitizeString_def trim_def isSpace_def
        stripOneQuote_def isQuote_def removeNul_def collapseSpaces_def maxLength_def)
  from p v mapped_strings_sanitized [of ?cd "[]"] show ?thesis by blast
qed

text \<open>
  C8 as stated fails: \<^verbatim>\<open>trim\<close> runs before the quotes are removed, so the note
  \<^verbatim>\<open>" call back "\<close> (with its quotes) is mapped to a string that starts and ends with
  a space.
\<close>

theorem mapped_string_edge_space_counterexample:
  "mapContactDataToAirtable [(js ''notes'', JStr ([34] @ js '' call back '' @ [34]))] []
     = [(js ''Notes'', JStr (js '' call back ''))]
   \<and> \<not> trimmed (js '' call back '')"
  by (simp add: mapContactDataToAirtable_def mergedMappings_Nil defaultMappings_def objSet_def js_def
        isArrayIndex_def isDigit_def mapStep_def getProp_def sanitizeString_def trim_def isSpace_def
        stripOneQuote_def isQuote_def removeNul_def collapseSpaces_def maxLength_def trimmed_def)

section \<open>TypeTransformer (background.js)\<close>

subsection \<open>Conversions of the language\<close>

text \<open>
  The conversions between numbers, dates and strings (\<^verbatim>\<open>Number::toString\<close>,
  \<^verbatim>\<open>parseFloat\<close> on a string, \<^verbatim>\<open>Date.prototype.toString\<close> and
  \<^verbatim>\<open>toISOString\<close> on a valid time value) are functions of the language, not of
  this program. The transformer takes them as a parameter.
\<close>

record runtime =
  numberToString :: "64 word \<Rightarrow> jstring"
  parseFloatString :: "jstring \<Rightarrow> 64 word"
  dateToString :: "64 word \<Rightarrow> jstring"
  dateToISOString :: "64 word \<Rightarrow> jstring"

datatype exn = TypeError | RangeError

fun joinWith :: "nat \<Rightarrow> jstring list \<Rightarrow> jstring" where
  "joinWith sep [] = []"
| "joinWith sep [s] = s"
| "joinWith sep (s # t # ss) = s @ sep # joinWith sep (t # ss)"

fun sequence :: "(exn + 'a) list \<Rightarrow> exn + 'a list" where
  "sequence [] = Inr []"
| "sequence (Inl e # rs) = Inl e"
| "sequence (Inr x # rs) = (case sequence rs of Inl e \<Rightarrow> Inl e | Inr xs \<Rightarrow> Inr (x # xs))"

text \<open>
  \<^verbatim>\<open>String(v)\<close>. An array is joined with commas, \<^verbatim>\<open>null\<close> and
  \<^verbatim>\<open>undefined\<close> elements giving the empty string. An object gives
  \<^verbatim>\<open>[object Object]\<close>; when it has a property \<^verbatim>\<open>toString\<close> of its own, which is
  never a function here, the conversion throws a \<^verbatim>\<open>TypeError\<close>.
\<close>

fun toString :: "runtime \<Rightarrow> jsval \<Rightarrow> exn + jstring" where
  "toString rt JUndefined = Inr (js ''undefined'')"
| "toString rt JNull = Inr (js ''null'')"
| "toString rt (JBool b) = Inr (if b then js ''true'' else js ''false'')"
| "toString rt (JNum d) = Inr (numberToString rt d)"
| "toString rt (JStr s) = Inr s"
| "toString rt (JArr xs) =
     (case sequence (map (\<lambda>v. if v = JUndefined \<or> v = JNull then Inr [] else toString rt v) xs)
      of Inl e \<Rightarrow> Inl e | Inr ss \<Rightarrow> Inr (joinWith 44 ss))"
| "toString rt (JObj kvs) =
     (if map_of kvs (js ''toString'') = None then Inr (js ''[object Object]'') else Inl TypeError)"
| "toString rt (JDate t) = Inr (dateToString rt t)"

text \<open>\<^verbatim>\<open>parseFloat(v)\<close> converts its argument to a string first.\<close>

definition parseFloat :: "runtime \<Rightarrow> jsval \<Rightarrow> exn + 64 word" where
  "parseFloat rt v = (case toString rt v of Inl e \<Rightarrow> Inl e | Inr s \<Rightarrow> Inr (parseFloatString rt s))"

text \<open>\<^verbatim>\<open>toISOString\<close> throws a \<^verbatim>\<open>RangeError\<close> on an invalid date.\<close>

definition toISOString :: "runtime \<Rightarrow> 64 word \<Rightarrow> exn + jstring" where
  "toISOString rt t = (if isNaN t then Inl RangeError else Inr (dateToISOString rt t))"

text \<open>
  \<^verbatim>\<open>replace(/^["']+|["']+$/g, '')\<close>: the quotes at the start and the quotes at the
  end are removed.
\<close>

definition stripQuotes :: "jstring \<Rightarrow> jstring" where
  "stripQuotes s = rev (dropWhile isQuote (rev (dropWhile isQuote s)))"

text \<open>\<^verbatim>\<open>s.split(',').map(v => v.trim()).filter(v => v.length > 0)\<close>.\<close>

definition splitItems :: "jstring \<Rightarrow> jstring list" where
  "splitItems s = filter (\<lambda>v. length v > 0) (map trim (splitOn 44 s))"

subsection \<open>transformByFieldType, case by case\<close>

definition attachmentOf :: "jsval \<Rightarrow> jsval" where
  "attachmentOf v =
     (case v of
        JStr s \<Rightarrow> if startsWith s (js ''http'') then JObj [(js ''url'', v)] else JNull
      | JObj kvs \<Rightarrow> if truthy (propOf v (js ''url'')) then v else JNull
      | _ \<Rightarrow> JNull)"

definition transformAttachments :: "jsval \<Rightarrow> jsval" where
  "transformAttachments v =
     (case v of
        JStr s \<Rightarrow> if startsWith s (js ''http'') then JArr [JObj [(js ''url'', v)]] else JArr []
      | JArr xs \<Rightarrow> JArr (filter (\<lambda>a. a \<noteq> JNull) (map attachmentOf xs))
      | _ \<Rightarrow> JArr [])"

definition isRecordId :: "jsval \<Rightarrow> bool" where
  "isRecordId v =
     (case v of
        JStr s \<Rightarrow> length s > 0 \<and> \<not> startsWith s (js ''http://'') \<and> \<not> startsWith s (js ''https://'')
      | _ \<Rightarrow> False)"

text \<open>The result \<^verbatim>\<open>null\<close> tells the caller to leave the field out.\<close>

definition transformRecordLinks :: "jsval \<Rightarrow> jsval" where
  "transformRecordLinks v =
     (if \<not> truthy v \<or> v = JStr [] \<or> v = JArr [] then JNull
      else case v of
        JArr xs \<Rightarrow> (let validIds = filter isRecordId xs in if validIds = [] then JNull else JArr validIds)
      | JStr s \<Rightarrow>
          if length s > 0 then
            if startsWith s (js ''http://'') \<or> startsWith s (js ''https://'') then JNull
            else if includesStr s (js '','') then JArr (map JStr (splitItems s))
            else JArr [v]
          else JNull
      | _ \<Rightarrow> JNull)"

definition transformMultipleSelects :: "runtime \<Rightarrow> jsval \<Rightarrow> exn + jsval" where
  "transformMultipleSelects rt v =
     (case v of
        JStr s \<Rightarrow> Inr (JArr (map JStr (filter (\<lambda>x. x \<noteq> []) (map trim (splitOn 44 s)))))
      | JArr xs \<Rightarrow>
          (case sequence (map (toString rt) xs) of
             Inl e \<Rightarrow> Inl e
           | Inr ss \<Rightarrow> Inr (JArr (map JStr (filter (\<lambda>x. x \<noteq> []) ss))))
      | _ \<Rightarrow> (case toString rt v of Inl e \<Rightarrow> Inl e | Inr s \<Rightarrow> Inr (JArr [JStr s])))"

definition cleanString :: "jstring \<Rightarrow> jsval" where
  "cleanString s = JStr (trim (stripQuotes s))"

definition transformSingleSelect :: "runtime \<Rightarrow> jsval \<Rightarrow> exn + jsval" where
  "transformSingleSelect rt v =
     (case (case v of
              JArr xs \<Rightarrow>
                (let first = (case xs of [] \<Rightarrow> JUndefined | x # _ \<Rightarrow> x)
                 in if truthy first then toString rt first else Inr [])
            | _ \<Rightarrow> toString rt v)
      of Inl e \<Rightarrow> Inl e | Inr singleValue \<Rightarrow> Inr (cleanString singleValue))"

definition transformText :: "runtime \<Rightarrow> jsval \<Rightarrow> exn + jsval" where
  "transformText rt v = (case toString rt v of Inl e \<Rightarrow> Inl e | Inr s \<Rightarrow> Inr (cleanString s))"

definition transformNumber :: "runtime \<Rightarrow> jsval \<Rightarrow> exn + jsval" where
  "transformNumber rt v =
     (case parseFloat rt v of Inl e \<Rightarrow> Inl e | Inr num \<Rightarrow> Inr (if isNaN num then JNull else JNum num))"

definition transformCheckbox :: "jsval \<Rightarrow> jsval" where
  "transformCheckbox v =
     (case v of
        JBool b \<Rightarrow> v
      | JStr s \<Rightarrow> JBool (toLowerCase s = js ''true'' \<or> s = js ''1'')
      | _ \<Rightarrow> JBool (truthy v))"

definition transformDate :: "runtime \<Rightarrow> jsval \<Rightarrow> exn + jsval" where
  "transformDate rt v =
     (case v of
        JDate t \<Rightarrow> (case toISOString rt t of Inl e \<Rightarrow> Inl e | Inr s \<Rightarrow> Inr (JStr s))
      | _ \<Rightarrow> (case toString rt v of Inl e \<Rightarrow> Inl e | Inr s \<Rightarrow> Inr (JStr s)))"

definition transformPlain :: "runtime \<Rightarrow> jsval \<Rightarrow> exn + jsval" where
  "transformPlain rt v = (case toString rt v of Inl e \<Rightarrow> Inl e | Inr s \<Rightarrow> Inr (JStr s))"

text \<open>The \<^verbatim>\<open>switch (fieldType)\<close>; the result \<open>Inl\<close> is an exception thrown.\<close>

definition transformByFieldType :: "runtime \<Rightarrow> jstring \<Rightarrow> jsval \<Rightarrow> jstring \<Rightarrow> exn + jsval" where
  "transformByFieldType rt fieldName v fieldType =
     (if fieldType = js ''multipleAttachments'' then Inr (transformAttachments v)
      else if fieldType = js ''multipleRecordLinks'' then Inr (transformRecordLinks v)
      else if fieldType = js ''multipleSelects'' then transformMultipleSelects rt v
      else if fieldType = js ''singleSelect'' then transformSingleSelect rt v
      else if fieldType = js ''multilineText'' \<or> fieldType = js ''singleLineText''
              \<or> fieldType = js ''richText'' then transformText rt v
      else if fieldType = js ''number'' \<or> fieldType = js ''currency''
              \<or> fieldType = js ''percent'' \<or> fieldType = js ''rating'' then transformNumber rt v
      else if fieldType = js ''checkbox'' then Inr (transformCheckbox v)
      else if fieldType = js ''date'' \<or> fieldType = js ''dateTime'' then transformDate rt v
      else if fieldType = js ''url'' \<or> fieldType = js ''email''
              \<or> fieldType = js ''phoneNumber'' then transformPlain rt v
      else Inr v)"

subsection \<open>transformByHeuristic and transformFieldsForAirtable\<close>

definition transformByHeuristic :: "jstring \<Rightarrow> jsval \<Rightarrow> jsval" where
  "transformByHeuristic fieldName v =
     (let lowerName = toLowerCase fieldName in
      if (case v of JStr s \<Rightarrow> startsWith s (js ''http'') | _ \<Rightarrow> False)
         \<and> (includesStr lowerName (js ''picture'') \<or> includesStr lowerName (js ''photo'')
              \<or> includesStr lowerName (js ''image''))
      then v
      else if includesStr lowerName (js ''tag'') \<or> includesStr lowerName (js ''categor'') then
        (case v of
           JStr s \<Rightarrow>
             (let items = filter (\<lambda>x. x \<noteq> []) (map trim (splitOn 44 s)) in
              if length items > 1 then JArr (map JStr items)
              else if length items = 1 then JStr (hd items)
              else v)
         | _ \<Rightarrow> v)
      else v)"

text \<open>
  The schema is the result of \<^verbatim>\<open>fetchTableSchema\<close>: \<^verbatim>\<open>null\<close> (\<open>None\<close>) or the
  object that gives each field name of the table its type.
\<close>

type_synonym schema = "(jstring \<times> jstring) list option"

text \<open>\<^verbatim>\<open>schema ? schema[fieldName] : null\<close>, and whether it is truthy.\<close>

definition fieldTypeOf :: "schema \<Rightarrow> jstring \<Rightarrow> jstring option" where
  "fieldTypeOf schema fieldName =
     (case schema of
        None \<Rightarrow> None
      | Some sch \<Rightarrow> (case map_of sch fieldName of None \<Rightarrow> None | Some t \<Rightarrow> if t = [] then None else Some t))"

definition isEmptyValue :: "jsval \<Rightarrow> bool" where
  "isEmptyValue v \<longleftrightarrow> v = JNull \<or> v = JUndefined \<or> v = JStr []"

text \<open>
  One turn of the loop of \<^verbatim>\<open>transformFieldsForAirtable\<close>: the value the field gets,
  or \<open>None\<close> when the field is left out. A transformation that throws keeps the
  original value.
\<close>

definition transformField :: "runtime \<Rightarrow> schema \<Rightarrow> jstring \<Rightarrow> jsval \<Rightarrow> jsval option" where
  "transformField rt schema fieldName v =
     (if isEmptyValue v then None
      else case (case fieldTypeOf schema fieldName of
                   Some fieldType \<Rightarrow> transformByFieldType rt fieldName v fieldType
                 | None \<Rightarrow> Inr (transformByHeuristic fieldName v))
           of Inl e \<Rightarrow> Some v
            | Inr transformedValue \<Rightarrow> if transformedValue \<noteq> JNull then Some transformedValue else None)"

definition transformFieldsForAirtable ::
  "runtime \<Rightarrow> (jstring \<times> jsval) list \<Rightarrow> schema \<Rightarrow> (jstring \<times> jsval) list" where
  "transformFieldsForAirtable rt fs schema =
     foldl (\<lambda>transformedFields p.
              case transformField rt schema (fst p) (snd p) of
                None \<Rightarrow> transformedFields
              | Some tv \<Rightarrow> objSet transformedFields (fst p) tv)
       [] fs"

section \<open>SchemaValidator (background.js)\<close>

datatype validation = Valid | Invalid jstring

definition isObjectWithUrl :: "jsval \<Rightarrow> bool" where
  "isObjectWithUrl v \<longleftrightarrow> typeof v = js ''object'' \<and> v \<noteq> JNull \<and> isString (propOf v (js ''url''))"

definition validateFieldValue :: "jstring \<Rightarrow> jsval \<Rightarrow> jstring \<Rightarrow> validation" where
  "validateFieldValue fieldName v fieldType =
     (if fieldType = js ''multipleRecordLinks'' then
        (case v of
           JArr xs \<Rightarrow> if list_all isString xs then Valid
                      else Invalid (js ''All record IDs must be strings'')
         | _ \<Rightarrow> Invalid (js ''Expected array of record IDs for linked record field, got '' @ typeof v))
      else if fieldType = js ''multipleAttachments'' then
        (case v of
           JArr xs \<Rightarrow> if list_all isObjectWithUrl xs then Valid
                      else Invalid (js ''All attachments must be objects with url property'')
         | _ \<Rightarrow> Invalid (js ''Expected array of attachment objects, got '' @ typeof v))
      else if fieldType = js ''multipleSelects'' then
        (if isArray v then Valid
         else Invalid (js ''Expected array of strings for multi-select, got '' @ typeof v))
      else if fieldType = js ''singleSelect'' then
        (if isString v then Valid
         else Invalid (js ''Expected string for single select, got '' @ typeof v))
      else if fieldType = js ''number'' \<or> fieldType = js ''currency''
              \<or> fieldType = js ''percent'' \<or> fieldType = js ''rating'' then
        (case v of
           JNum d \<Rightarrow> if isNaN d then Invalid (js ''Expected number, got '' @ typeof v) else Valid
         | _ \<Rightarrow> Invalid (js ''Expected number, got '' @ typeof v))
      else if fieldType = js ''checkbox'' then
        (case v of
           JBool b \<Rightarrow> Valid
         | _ \<Rightarrow> Invalid (js ''Expected boolean, got '' @ typeof v))
      else if fieldType = js ''singleLineText'' \<or> fieldType = js ''multilineText''
              \<or> fieldType = js ''richText'' \<or> fieldType = js ''email'' \<or> fieldType = js ''url''
              \<or> fieldType = js ''phoneNumber'' \<or> fieldType = js ''date''
              \<or> fieldType = js ''dateTime'' then
        (if isString v then Valid else Invalid (js ''Expected string, got '' @ typeof v))
      else Valid)"

text \<open>The field types that \<^verbatim>\<open>validateFieldValue\<close> has a case for.\<close>

definition knownFieldTypes :: "jstring list" where
  "knownFieldTypes =
     [js ''multipleRecordLinks'', js ''multipleAttachments'', js ''multipleSelects'',
      js ''singleSelect'', js ''number'', js ''currency'', js ''percent'', js ''rating'',
      js ''checkbox'', js ''singleLineText'', js ''multilineText'', js ''richText'',
      js ''email'', js ''url'', js ''phoneNumber'', js ''date'', js ''dateTime'']"

text \<open>
  An entry of \<^verbatim>\<open>excludedFields\<close>. The entry of a field that the table does not have
  carries no expected type (and names its value \<^verbatim>\<open>value\<close>, not
  \<^verbatim>\<open>actualValue\<close>).
\<close>

datatype excluded =
  Excluded (exField: jstring) (exReason: jstring) (expectedType: "jstring option") (actualValue: jsval)

record validated =
  validFields :: "(jstring \<times> jsval) list"
  excludedFields :: "excluded list"

definition isValidLinkedRecord :: "jsval \<Rightarrow> bool" where
  "isValidLinkedRecord v =
     (case v of
        JArr xs \<Rightarrow> length xs > 0 \<and>
           list_all (\<lambda>x. case x of JStr s \<Rightarrow> \<not> startsWith s (js ''http'') | _ \<Rightarrow> False) xs
      | _ \<Rightarrow> False)"

datatype decision = Skip | Accept | Reject excluded

text \<open>One turn of the loop of \<^verbatim>\<open>validateAndFilterFields\<close>.\<close>

definition validateField :: "schema \<Rightarrow> jstring \<Rightarrow> jsval \<Rightarrow> decision" where
  "validateField schema fieldName v =
     (if isEmptyValue v then Skip
      else case schema of
        None \<Rightarrow> Accept
      | Some sch \<Rightarrow>
          (case fieldTypeOf schema fieldName of
             None \<Rightarrow> Reject (Excluded fieldName (js ''Field does not exist in Airtable table'') None v)
           | Some fieldType \<Rightarrow>
               if fieldType = js ''multipleRecordLinks'' \<and> \<not> isValidLinkedRecord v
               then Reject (Excluded fieldName
                      (js ''Linked record field requires array of record IDs, not URLs or text'')
                      (Some fieldType) v)
               else (case validateFieldValue fieldName v fieldType of
                       Valid \<Rightarrow> Accept
                     | Invalid reason \<Rightarrow> Reject (Excluded fieldName reason (Some fieldType) v))))"

definition validateStep :: "schema \<Rightarrow> validated \<Rightarrow> jstring \<times> jsval \<Rightarrow> validated" where
  "validateStep schema acc p =
     (case validateField schema (fst p) (snd p) of
        Skip \<Rightarrow> acc
      | Accept \<Rightarrow> acc\<lparr>validFields := objSet (validFields acc) (fst p) (snd p)\<rparr>
      | Reject e \<Rightarrow> acc\<lparr>excludedFields := excludedFields acc @ [e]\<rparr>)"

definition validateAndFilterFields :: "(jstring \<times> jsval) list \<Rightarrow> schema \<Rightarrow> validated" where
  "validateAndFilterFields fs schema =
     foldl (validateStep schema) \<lparr>validFields = [], excludedFields = []\<rparr> fs"

section \<open>The pipeline of saveToAirtable\<close>



subsection \<open>The two loops, field by field\<close>

lemma map_of_transformFields:
  "distinct (map fst fs) \<Longrightarrow>
   map_of (transformFieldsForAirtable rt fs schema) k =
     (case map_of fs k of None \<Rightarrow> None | Some v \<Rightarrow> transformField rt schema k v)"
proof (induction fs rule: rev_induct)
  case Nil
  show ?case by (simp add: transformFieldsForAirtable_def)
next
  case (snoc p fs)
  obtain k0 v0 where p: "p = (k0, v0)" by (cases p)
  from snoc.prems have d: "distinct (map fst fs)" and n: "k0 \<notin> fst ` set fs"
    by (auto simp: p)
  have none: "map_of fs k0 = None" using n by (simp add: map_of_eq_None_iff)
  have step: "transformFieldsForAirtable rt (fs @ [(k0, v0)]) schema =
      (case transformField rt schema k0 v0 of
         None \<Rightarrow> transformFieldsForAirtable rt fs schema
       | Some tv \<Rightarrow> objSet (transformFieldsForAirtable rt fs schema) k0 tv)"
    unfolding transformFieldsForAirtable_def by (simp cong: option.case_cong)
  have ih: "map_of (transformFieldsForAirtable rt fs schema) k =
     (case map_of fs k of None \<Rightarrow> None | Some v \<Rightarrow> transformField rt schema k v)"
    by (rule snoc.IH [OF d])
  show ?case
  proof (cases "k = k0")
    case True
    with none ih show ?thesis
      by (simp add: p step map_of_objSet map_add_def split: option.splits)
  next
    case False
    with ih show ?thesis
      by (simp add: p step map_of_objSet map_add_def split: option.splits)
  qed
qed

lemma validated_foldl_append:
  "foldl (validateStep schema) acc (fs @ [p]) = validateStep schema (foldl (validateStep schema) acc fs) p"
  by simp

lemma excluded_validate:
  "excludedFields (foldl (validateStep schema) acc fs) =
     excludedFields acc @ concat (map (\<lambda>p. case validateField schema (fst p) (snd p) of
                                  Reject e \<Rightarrow> [e] | _ \<Rightarrow> []) fs)"
  by (induction fs arbitrary: acc) (auto simp: validateStep_def split: decision.splits)

lemma map_upd_add: "m(k \<mapsto> v) ++ M = m ++ ([k \<mapsto> v] ++ M)"
  by (rule ext) (simp add: map_add_def split: option.splits)

lemma valid_validate:
  "map_of (validFields (foldl (validateStep schema) acc fs)) =
     map_of (validFields acc) ++
       map_of (rev (filter (\<lambda>p. validateField schema (fst p) (snd p) = Accept) fs))"
proof (induction fs arbitrary: acc)
  case Nil
  show ?case by simp
next
  case (Cons p fs)
  let ?A = "\<lambda>p. validateField schema (fst p) (snd p) = Accept"
  show ?case
  proof (cases "?A p")
    case True
    have s: "validateStep schema acc p = acc\<lparr>validFields := objSet (validFields acc) (fst p) (snd p)\<rparr>"
      using True by (simp add: validateStep_def)
    have v: "validFields (validateStep schema acc p) = objSet (validFields acc) (fst p) (snd p)"
      by (simp add: s)
    have "map_of (validFields (foldl (validateStep schema) acc (p # fs)))
        = (map_of (validFields acc))(fst p \<mapsto> snd p) ++ map_of (rev (filter ?A fs))"
      by (simp only: foldl_Cons Cons.IH v map_of_objSet)
    also have "\<dots> = map_of (validFields acc) ++ ([fst p \<mapsto> snd p] ++ map_of (rev (filter ?A fs)))"
      by (rule map_upd_add)
    also have "[fst p \<mapsto> snd p] ++ map_of (rev (filter ?A fs)) = map_of (rev (filter ?A (p # fs)))"
      using True by (cases p) simp
    finally show ?thesis .
  next
    case False
    then have s: "validateStep schema acc p = acc \<or>
        (\<exists>e. validateStep schema acc p = acc\<lparr>excludedFields := excludedFields acc @ [e]\<rparr>)"
      by (cases "validateField schema (fst p) (snd p)") (auto simp: validateStep_def)
    then have "validFields (validateStep schema acc p) = validFields acc" by auto
    with False show ?thesis
      by (simp add: Cons.IH)
  qed
qed

lemma exField_validateField: "validateField schema k v = Reject e \<Longrightarrow> exField e = k"
  by (auto simp: validateField_def split: if_splits option.splits validation.splits)



subsection \<open>Linked-record fields\<close>

lemma includesStr_single: "includesStr s [c] \<longleftrightarrow> c \<in> set s"
  by (induction s) (auto simp: startsWith_def)

lemma splitOn_nonempty: "splitOn c s \<noteq> []"
  by (induction s) (auto split: list.splits)

lemma length_splitOn: "length (splitOn c s) = Suc (count_list s c)"
  by (induction s) (auto split: list.splits simp: splitOn_nonempty)

lemma joinWith_splitOn: "joinWith c (splitOn c s) = s"
proof (induction s)
  case Nil
  show ?case by simp
next
  case (Cons a s)
  obtain p ps where sp: "splitOn c s = p # ps"
    using splitOn_nonempty [of c s] by (cases "splitOn c s") auto
  with Cons show ?case by (cases ps) auto
qed

lemma count_list_pos: "c \<in> set s \<Longrightarrow> count_list s c > 0"
  by (induction s) auto

lemma js_comma: "js '','' = [44]"
  by (simp add: js_def)

lemma startsWith_Nil: "p \<noteq> [] \<Longrightarrow> \<not> startsWith [] p"
  by (auto simp: startsWith_def)

text \<open>
  C1, as amended. Under the type \<^verbatim>\<open>multipleRecordLinks\<close>: a string that starts with
  \<^verbatim>\<open>http://\<close> or \<^verbatim>\<open>https://\<close> is answered by \<^verbatim>\<open>null\<close>, the sign to leave
  the field out, and so are the empty string, \<^verbatim>\<open>null\<close>, \<^verbatim>\<open>undefined\<close> and the
  empty array; a field whose value is answered by \<^verbatim>\<open>null\<close> is not a property of
  the transformed fields. A string that is not such a URL and holds a comma is cut at
  its commas, into two pieces or more; the identifiers are the pieces, trimmed, that
  are not empty.
\<close>

theorem linked_record_transform:
  "(startsWith s (js ''http://'') \<or> startsWith s (js ''https://'') \<longrightarrow>
      transformByFieldType rt fieldName (JStr s) (js ''multipleRecordLinks'') = Inr JNull)
   \<and> (v = JStr [] \<or> v = JNull \<or> v = JUndefined \<or> v = JArr [] \<longrightarrow>
      transformByFieldType rt fieldName v (js ''multipleRecordLinks'') = Inr JNull)
   \<and> (\<not> startsWith s (js ''http://'') \<and> \<not> startsWith s (js ''https://'') \<and> 44 \<in> set s \<longrightarrow>
      transformByFieldType rt fieldName (JStr s) (js ''multipleRecordLinks'')
        = Inr (JArr (map JStr (filter (\<lambda>x. x \<noteq> []) (map trim (splitOn 44 s)))))
      \<and> length (splitOn 44 s) \<ge> 2 \<and> joinWith 44 (splitOn 44 s) = s)
   \<and> (distinct (map fst fs) \<and> (fieldName, v) \<in> set fs
        \<and> map_of sch fieldName = Some (js ''multipleRecordLinks'')
        \<and> transformByFieldType rt fieldName v (js ''multipleRecordLinks'') = Inr JNull \<longrightarrow>
      map_of (transformFieldsForAirtable rt fs (Some sch)) fieldName = None)"
proof -
  have rl: "\<And>x. transformByFieldType rt fieldName x (js ''multipleRecordLinks'') = Inr (transformRecordLinks x)"
    by (simp add: transformByFieldType_def js_def)
  have a: "transformRecordLinks (JStr s) = JNull"
    if "startsWith s (js ''http://'') \<or> startsWith s (js ''https://'')"
    using that by (auto simp: transformRecordLinks_def)
  have b: "transformRecordLinks v = JNull"
    if "v = JStr [] \<or> v = JNull \<or> v = JUndefined \<or> v = JArr []"
    using that by (auto simp: transformRecordLinks_def)
  have c: "transformRecordLinks (JStr s) = JArr (map JStr (filter (\<lambda>x. x \<noteq> []) (map trim (splitOn 44 s))))"
    if "\<not> startsWith s (js ''http://'')" "\<not> startsWith s (js ''https://'')" "44 \<in> set s"
  proof -
    from that(3) have "s \<noteq> []" by auto
    with that show ?thesis
      by (simp add: transformRecordLinks_def js_comma includesStr_single splitItems_def)
  qed
  have c2: "length (splitOn 44 s) \<ge> 2" if "44 \<in> set s"
    using count_list_pos [OF that] by (simp add: length_splitOn)
  have d: "map_of (transformFieldsForAirtable rt fs (Some sch)) fieldName = None"
    if "distinct (map fst fs)" "(fieldName, v) \<in> set fs"
       "map_of sch fieldName = Some (js ''multipleRecordLinks'')"
       "transformByFieldType rt fieldName v (js ''multipleRecordLinks'') = Inr JNull"
  proof -
    have ft: "fieldTypeOf (Some sch) fieldName = Some (js ''multipleRecordLinks'')"
      using that(3) by (simp add: fieldTypeOf_def js_def)
    have "transformField rt (Some sch) fieldName v = None"
      using that(4) by (simp add: transformField_def ft)
    with that(1,2) show ?thesis by (simp add: map_of_transformFields)
  qed
  from a b c c2 d show ?thesis
    by (simp add: rl joinWith_splitOn)
qed

theorem linked_record_transform_witness:
  "\<forall>rt. startsWith (js ''https://example.com/x'') (js ''https://'')
     \<and> transformByFieldType rt (js ''Related'') (JStr (js ''https://example.com/x'')) (js ''multipleRecordLinks'') = Inr JNull
     \<and> transformByFieldType rt (js ''Related'') (JArr []) (js ''multipleRecordLinks'') = Inr JNull
     \<and> 44 \<in> set (js ''rec1, rec2'')
     \<and> transformByFieldType rt (js ''Related'') (JStr (js ''rec1, rec2'')) (js ''multipleRecordLinks'')
         = Inr (JArr [JStr (js ''rec1''), JStr (js ''rec2'')])
     \<and> map_of (transformFieldsForAirtable rt [(js ''Related'', JStr (js ''https://example.com/x''))]
           (Some [(js ''Related'', js ''multipleRecordLinks'')])) (js ''Related'') = None"
proof
  fix rt
  let ?u = "js ''https://example.com/x''"
  let ?fs = "[(js ''Related'', JStr ?u)]"
  let ?sch = "[(js ''Related'', js ''multipleRecordLinks'')]"
  have u: "startsWith ?u (js ''https://'')"
    by (simp add: startsWith_def js_def)
  have c: "\<not> startsWith (js ''rec1, rec2'') (js ''http://'')"
          "\<not> startsWith (js ''rec1, rec2'') (js ''https://'')" "44 \<in> set (js ''rec1, rec2'')"
    by (simp_all add: startsWith_def js_def)
  have e: "filter (\<lambda>x. x \<noteq> []) (map trim (splitOn 44 (js ''rec1, rec2''))) = [js ''rec1'', js ''rec2'']"
    by (simp add: js_def trim_def isSpace_def)
  have m: "distinct (map fst ?fs)" "(js ''Related'', JStr ?u) \<in> set ?fs"
          "map_of ?sch (js ''Related'') = Some (js ''multipleRecordLinks'')"
    by simp_all
  note t1 = linked_record_transform [of ?u rt "js ''Related''" "JArr []" ?fs ?sch]
  note t2 = linked_record_transform [of "js ''rec1, rec2''" rt "js ''Related''" "JStr ?u" ?fs ?sch]
  show "startsWith ?u (js ''https://'')
     \<and> transformByFieldType rt (js ''Related'') (JStr ?u) (js ''multipleRecordLinks'') = Inr JNull
     \<and> transformByFieldType rt (js ''Related'') (JArr []) (js ''multipleRecordLinks'') = Inr JNull
     \<and> 44 \<in> set (js ''rec1, rec2'')
     \<and> transformByFieldType rt (js ''Related'') (JStr (js ''rec1, rec2'')) (js ''multipleRecordLinks'')
         = Inr (JArr [JStr (js ''rec1''), JStr (js ''rec2'')])
     \<and> map_of (transformFieldsForAirtable rt ?fs (Some ?sch)) (js ''Related'') = None"
    using t1 t2 u c e m by simp
qed

text \<open>
  C1 as stated fails where pieces are blank: \<^verbatim>\<open>"rec1,"\<close> gives the one identifier
  \<^verbatim>\<open>rec1\<close>, and \<^verbatim>\<open>","\<close> gives the empty array, not several identifiers.
\<close>

theorem linked_record_split_counterexample:
  "\<forall>rt. transformByFieldType rt (js ''Related'') (JStr (js ''rec1,'')) (js ''multipleRecordLinks'')
          = Inr (JArr [JStr (js ''rec1'')])
      \<and> transformByFieldType rt (js ''Related'') (JStr (js '','')) (js ''multipleRecordLinks'')
          = Inr (JArr [])"
  by (simp add: transformByFieldType_def transformRecordLinks_def splitItems_def js_def
      startsWith_def trim_def isSpace_def)

subsection \<open>Unknown field types\<close>

lemma validateFieldValue_unknown:
  "fieldType \<notin> set knownFieldTypes \<Longrightarrow> validateFieldValue fieldName v fieldType = Valid"
  by (simp add: knownFieldTypes_def validateFieldValue_def)

lemma exField_excluded:
  assumes "e \<in> set (excludedFields (validateAndFilterFields fs schema))"
  shows "\<exists>p \<in> set fs. validateField schema (fst p) (snd p) = Reject e \<and> exField e = fst p"
proof -
  from assms obtain p where p: "p \<in> set fs"
    and e: "e \<in> set (case validateField schema (fst p) (snd p) of Reject e \<Rightarrow> [e] | _ \<Rightarrow> [])"
    by (auto simp: validateAndFilterFields_def excluded_validate)
  from e have "validateField schema (fst p) (snd p) = Reject e"
    by (cases "validateField schema (fst p) (snd p)") auto
  with p show ?thesis by (auto dest: exField_validateField)
qed


lemma accepted_in_valid:
  assumes "distinct (map fst fs)" "(k, v) \<in> set fs" "validateField schema k v = Accept"
  shows "map_of (validFields (validateAndFilterFields fs schema)) k = Some v"
proof -
  let ?acc = "filter (\<lambda>p. validateField schema (fst p) (snd p) = Accept) fs"
  have d: "distinct (map fst (rev ?acc))"
    using assms(1) by (simp add: distinct_map_filter rev_map [symmetric])
  have "(k, v) \<in> set (rev ?acc)" using assms(2,3) by simp
  with d have "map_of (rev ?acc) k = Some v" by (rule map_of_is_SomeI)
  then show ?thesis
    by (simp add: validateAndFilterFields_def valid_validate)
qed

text \<open>
  C9. For a field type that \<^verbatim>\<open>validateFieldValue\<close> has no case for, the answer is
  valid whatever the value is. In \<^verbatim>\<open>validateAndFilterFields\<close>, a field with such a
  type in the schema and a value that is not empty is among the valid fields, with its
  value, and no entry of the excluded fields names it.
\<close>

theorem unknown_field_type_accepted:
  assumes "fieldType \<notin> set knownFieldTypes"
  shows "validateFieldValue fieldName v fieldType = Valid
     \<and> (distinct (map fst fs) \<and> (fieldName, v) \<in> set fs \<and> \<not> isEmptyValue v
          \<and> map_of sch fieldName = Some fieldType \<and> fieldType \<noteq> [] \<longrightarrow>
        map_of (validFields (validateAndFilterFields fs (Some sch))) fieldName = Some v
        \<and> fieldName \<notin> exField ` set (excludedFields (validateAndFilterFields fs (Some sch))))"
proof -
  have a: "validateFieldValue fieldName v fieldType = Valid"
    using assms by (rule validateFieldValue_unknown)
  have b: "map_of (validFields (validateAndFilterFields fs (Some sch))) fieldName = Some v
        \<and> fieldName \<notin> exField ` set (excludedFields (validateAndFilterFields fs (Some sch)))"
    if h: "distinct (map fst fs)" "(fieldName, v) \<in> set fs" "\<not> isEmptyValue v"
       "map_of sch fieldName = Some fieldType" "fieldType \<noteq> []"
  proof -
    have nl: "fieldType \<noteq> js ''multipleRecordLinks''"
      using assms by (auto simp: knownFieldTypes_def)
    have acc: "validateField (Some sch) fieldName v = Accept"
      using h(3,4,5) a nl by (simp add: validateField_def fieldTypeOf_def)
    have 1: "map_of (validFields (validateAndFilterFields fs (Some sch))) fieldName = Some v"
      using h(1,2) acc by (rule accepted_in_valid)
    have 2: "fieldName \<notin> exField ` set (excludedFields (validateAndFilterFields fs (Some sch)))"
    proof
      assume "fieldName \<in> exField ` set (excludedFields (validateAndFilterFields fs (Some sch)))"
      then obtain e where e: "e \<in> set (excludedFields (validateAndFilterFields fs (Some sch)))"
        and n: "exField e = fieldName" by auto
      from exField_excluded [OF e] obtain p where p: "p \<in> set fs"
        "validateField (Some sch) (fst p) (snd p) = Reject e" "exField e = fst p" by auto
      from p(1,3) n h(1,2) have "snd p = v"
        by (metis eq_key_imp_eq_value prod.collapse)
      with p(2,3) n acc show False by simp
    qed
    from 1 2 show ?thesis by simp
  qed
  from a b show ?thesis by blast
qed

theorem unknown_field_type_accepted_witness:
  "js ''formula'' \<notin> set knownFieldTypes
   \<and> validateFieldValue (js ''Score'') (JNum 0) (js ''formula'') = Valid
   \<and> validFields (validateAndFilterFields [(js ''Score'', JStr (js ''7''))] (Some [(js ''Score'', js ''formula'')]))
       = [(js ''Score'', JStr (js ''7''))]
   \<and> map_of (validFields (validateAndFilterFields [(js ''Score'', JStr (js ''7''))]
         (Some [(js ''Score'', js ''formula'')]))) (js ''Score'') = Some (JStr (js ''7''))
   \<and> js ''Score'' \<notin> exField ` set (excludedFields (validateAndFilterFields [(js ''Score'', JStr (js ''7''))]
         (Some [(js ''Score'', js ''formula'')])))"
proof -
  let ?fs = "[(js ''Score'', JStr (js ''7''))]"
  let ?sch = "[(js ''Score'', js ''formula'')]"
  have u: "js ''formula'' \<notin> set knownFieldTypes"
    by (simp add: knownFieldTypes_def js_def)
  have h: "distinct (map fst ?fs)" "(js ''Score'', JStr (js ''7'')) \<in> set ?fs"
    "\<not> isEmptyValue (JStr (js ''7''))" "map_of ?sch (js ''Score'') = Some (js ''formula'')"
    "js ''formula'' \<noteq> []"
    by (simp_all add: isEmptyValue_def js_def)
  have ev: "validFields (validateAndFilterFields ?fs (Some ?sch)) = ?fs"
    by (simp add: validateAndFilterFields_def validateStep_def validateField_def fieldTypeOf_def
        isEmptyValue_def validateFieldValue_def objSet_def isArrayIndex_def isDigit_def js_def)
  from unknown_field_type_accepted [OF u, of "js ''Score''" "JNum 0" ?fs ?sch]
       unknown_field_type_accepted [OF u, of "js ''Score''" "JStr (js ''7'')" ?fs ?sch] h u ev
  show ?thesis by blast
qed

subsection \<open>Running the pipeline twice\<close>













































































section \<open>RemoteSchemaCache (background.js)\<close>

text \<open>
  \<^verbatim>\<open>fetchTableSchema\<close> reads and writes the field \<^verbatim>\<open>cachedSchema\<close> of the service
  and the entries of \<^verbatim>\<open>chrome.storage.local\<close>; it reads the clock and calls
  \<^verbatim>\<open>fetch\<close>. The state is passed explicitly. What the world answers during one call
  is an argument: the time, the outcome of the request, and whether the storage accepts
  a write and a read. The result says, besides the schema, how many requests went out.
\<close>

record config =
  apiToken :: jstring
  baseId :: jstring
  tableId :: jstring

record cacheEntry =
  configKey :: jstring
  fieldTypes :: "(jstring \<times> jstring) list"
  fieldDetails :: "(jstring \<times> jstring \<times> jsval) list"
  timestamp :: int

record storedSchema =
  storedFieldTypes :: "(jstring \<times> jstring) list"
  storedFieldDetails :: "(jstring \<times> jstring \<times> jsval) list"
  storedTimestamp :: int

record service =
  cachedSchema :: "cacheEntry option"
  storage :: "jstring \<Rightarrow> storedSchema option"

record tableField =
  fieldName :: jstring
  fieldType :: jstring
  fieldOptions :: jsval

record airtable =
  tableIdent :: jstring
  tableName :: jstring
  tableFields :: "tableField list option"

text \<open>
  The request fails in the network (\<^verbatim>\<open>fetch\<close> throws), or is answered with a status
  that is not ok, or is answered with the list of the tables of the base.
\<close>

datatype response = NetworkFailure | HttpFailure nat | Tables "airtable list"

record world =
  now :: int
  answer :: response
  storageWrites :: bool
  storageReads :: bool

definition cacheTimeout :: int where
  "cacheTimeout = 5 * 60 * 1000"

definition configKeyOf :: "config \<Rightarrow> jstring" where
  "configKeyOf c = baseId c @ js '':'' @ tableId c"

definition storageKey :: "jstring \<Rightarrow> jstring" where
  "storageKey k = js ''airtableSchema_'' @ k"

record outcome =
  schemaOf :: schema
  serviceOf :: service
  requests :: nat

text \<open>The \<^verbatim>\<open>catch\<close> block: the copy in the storage, or \<^verbatim>\<open>null\<close>.\<close>

definition fromStorage :: "jstring \<Rightarrow> world \<Rightarrow> service \<Rightarrow> nat \<Rightarrow> outcome" where
  "fromStorage k w s n =
     (if storageReads w then
        (case storage s (storageKey k) of
           Some st \<Rightarrow>
             \<lparr>schemaOf = Some (storedFieldTypes st),
              serviceOf = s\<lparr>cachedSchema := Some \<lparr>configKey = k, fieldTypes = storedFieldTypes st,
                              fieldDetails = storedFieldDetails st, timestamp = storedTimestamp st\<rparr>\<rparr>,
              requests = n\<rparr>
         | None \<Rightarrow> \<lparr>schemaOf = None, serviceOf = s, requests = n\<rparr>)
      else \<lparr>schemaOf = None, serviceOf = s, requests = n\<rparr>)"

definition fetchTableSchema :: "config \<Rightarrow> world \<Rightarrow> service \<Rightarrow> outcome" where
  "fetchTableSchema c w s =
     (let k = configKeyOf c in
      case (case cachedSchema s of
              Some e \<Rightarrow> if configKey e = k \<and> timestamp e \<noteq> 0 \<and> now w - timestamp e < cacheTimeout
                         then Some e else None
            | None \<Rightarrow> None)
      of Some e \<Rightarrow> \<lparr>schemaOf = Some (fieldTypes e), serviceOf = s, requests = 0\<rparr>
       | None \<Rightarrow>
          (case answer w of
             NetworkFailure \<Rightarrow> fromStorage k w s 1
           | HttpFailure status \<Rightarrow>
               (case cachedSchema s of
                  Some e \<Rightarrow> if configKey e = k
                             then \<lparr>schemaOf = Some (fieldTypes e), serviceOf = s, requests = 1\<rparr>
                             else \<lparr>schemaOf = None, serviceOf = s, requests = 1\<rparr>
                | None \<Rightarrow> \<lparr>schemaOf = None, serviceOf = s, requests = 1\<rparr>)
           | Tables ts \<Rightarrow>
               (case find (\<lambda>t. tableIdent t = tableId c \<or> tableName t = tableId c) ts of
                  Some t \<Rightarrow>
                    (case tableFields t of
                       Some fs \<Rightarrow>
                         (let ft = foldl (\<lambda>acc f. objSet acc (fieldName f) (fieldType f)) [] fs;
                              fd = foldl (\<lambda>acc f. objSet acc (fieldName f)
                                     (fieldType f, if truthy (fieldOptions f) then fieldOptions f else JNull)) [] fs;
                              s1 = s\<lparr>cachedSchema := Some \<lparr>configKey = k, fieldTypes = ft,
                                       fieldDetails = fd, timestamp = now w\<rparr>\<rparr>;
                              s2 = (if storageWrites w
                                    then s1\<lparr>storage := (storage s1)(storageKey k \<mapsto>
                                           \<lparr>storedFieldTypes = ft, storedFieldDetails = fd,
                                            storedTimestamp = now w\<rparr>)\<rparr>
                                    else s1)
                          in \<lparr>schemaOf = Some ft, serviceOf = s2, requests = 1\<rparr>)
                     | None \<Rightarrow> \<lparr>schemaOf = None, serviceOf = s, requests = 1\<rparr>)
                | None \<Rightarrow> \<lparr>schemaOf = None, serviceOf = s, requests = 1\<rparr>)))"


subsection \<open>Within the time to live\<close>

lemma cache_hit_no_request:
  assumes "cachedSchema s = Some e" "configKey e = configKeyOf c" "timestamp e \<noteq> 0"
    "now w - timestamp e < cacheTimeout"
  shows "fetchTableSchema c w s = \<lparr>schemaOf = Some (fieldTypes e), serviceOf = s, requests = 0\<rparr>"
  using assms by (simp add: fetchTableSchema_def Let_def)

lemma fetched_entry:
  assumes "cachedSchema s = None" "answer w = Tables ts"
    "find (\<lambda>t. tableIdent t = tableId c \<or> tableName t = tableId c) ts = Some t"
    "tableFields t = Some fs"
  shows "requests (fetchTableSchema c w s) = 1
    \<and> (\<exists>e. cachedSchema (serviceOf (fetchTableSchema c w s)) = Some e
          \<and> configKey e = configKeyOf c \<and> timestamp e = now w
          \<and> schemaOf (fetchTableSchema c w s) = Some (fieldTypes e))"
  using assms by (simp add: fetchTableSchema_def Let_def)

lemma two_calls_one_request:
  assumes "cachedSchema s = None" "answer w1 = Tables ts"
    "find (\<lambda>t. tableIdent t = tableId c \<or> tableName t = tableId c) ts = Some t"
    "tableFields t = Some fs" "now w1 \<noteq> 0" "now w2 - now w1 < cacheTimeout"
  shows "requests (fetchTableSchema c w1 s)
           + requests (fetchTableSchema c w2 (serviceOf (fetchTableSchema c w1 s))) = 1
    \<and> schemaOf (fetchTableSchema c w2 (serviceOf (fetchTableSchema c w1 s)))
         = schemaOf (fetchTableSchema c w1 s)"
proof -
  let ?o1 = "fetchTableSchema c w1 s"
  from fetched_entry [OF assms(1-4)] obtain e where
    r: "requests ?o1 = 1" and e: "cachedSchema (serviceOf ?o1) = Some e"
    "configKey e = configKeyOf c" "timestamp e = now w1" "schemaOf ?o1 = Some (fieldTypes e)"
    by blast
  have "fetchTableSchema c w2 (serviceOf ?o1)
      = \<lparr>schemaOf = Some (fieldTypes e), serviceOf = serviceOf ?o1, requests = 0\<rparr>"
    using e assms(5,6) by (intro cache_hit_no_request) simp_all
  with r e show ?thesis by simp
qed

subsection \<open>When the request fails\<close>

definition exampleConfig :: config where
  "exampleConfig = \<lparr>apiToken = js ''pat'', baseId = js ''app1'', tableId = js ''tbl1''\<rparr>"

definition exampleTypes :: "(jstring \<times> jstring) list" where
  "exampleTypes = [(js ''Name'', js ''singleLineText'')]"

text \<open>
  C2. A call whose entry in memory is younger than five minutes makes no request (the
  lemmas above). The order of the fallbacks, though, is not the one the claim gives. After
  a restart of the service worker the memory is empty and the storage holds the copy of
  the schema: when the request is answered with status 500, the result is \<^verbatim>\<open>null\<close>,
  not the stored copy. And when the request fails in the network while the memory holds
  a stale entry and the storage holds none, the result is \<^verbatim>\<open>null\<close>, not the stale
  entry.
\<close>

theorem schema_fallback_divergence:
  "schemaOf (fetchTableSchema exampleConfig
       \<lparr>now = 1000000, answer = HttpFailure 500, storageWrites = True, storageReads = True\<rparr>
       \<lparr>cachedSchema = None,
        storage = [storageKey (configKeyOf exampleConfig) \<mapsto>
           \<lparr>storedFieldTypes = exampleTypes, storedFieldDetails = [], storedTimestamp = 1000\<rparr>]\<rparr>)
     = None
   \<and> schemaOf (fetchTableSchema exampleConfig
       \<lparr>now = 1000000, answer = NetworkFailure, storageWrites = True, storageReads = True\<rparr>
       \<lparr>cachedSchema = Some \<lparr>configKey = configKeyOf exampleConfig, fieldTypes = exampleTypes,
                               fieldDetails = [], timestamp = 1000\<rparr>,
        storage = Map.empty\<rparr>)
     = None"
  by (simp add: fetchTableSchema_def fromStorage_def cacheTimeout_def Let_def)


section \<open>ErrorClassifier (background.js)\<close>

text \<open>
  \<^verbatim>\<open>parseAirtableError\<close> gets the error that was thrown or made from the status of the
  response (an \<^verbatim>\<open>Error\<close>, with its message, a string), the body of the response as
  \<^verbatim>\<open>JSON.parse\<close> gave it, or \<^verbatim>\<open>null\<close>, and the fields that were sent, which it
  only writes to the log. The calls of the log cannot throw: the two that convert their
  argument stand in a \<^verbatim>\<open>try\<close> block.
\<close>

record jsError =
  errorMessage :: jstring

record errorInfo =
  message :: jsval
  unknownFields :: "jstring list"
  fieldErrors :: "(jstring \<times> jstring) list"

subsection \<open>The two patterns that extract a field name\<close>

text \<open>
  \<^verbatim>\<open>errorMsg.match(/"([^"]+)"/)?.[1]\<close>: at the first double quote that is followed
  by code units other than the double quote, one or more, and then by a double quote,
  those code units.
\<close>

fun quotedName :: "jstring \<Rightarrow> jstring option" where
  "quotedName [] = None"
| "quotedName (c # cs) =
     (if c = 34 \<and> takeWhile (\<lambda>x. x \<noteq> 34) cs \<noteq> [] \<and> dropWhile (\<lambda>x. x \<noteq> 34) cs \<noteq> []
      then Some (takeWhile (\<lambda>x. x \<noteq> 34) cs)
      else quotedName cs)"

text \<open>
  \<^verbatim>\<open>errorMsg.match(/field[s]?\s+["']?([^"'\s,]+)["']?/i)?.[1]\<close>. The group takes
  the longest run of code units that are no quote, no white space and no comma; what
  stands before it leaves no choice: the letter \<^verbatim>\<open>s\<close> is taken when it is there, all
  the white space is taken, and a quote is taken when it is there.
\<close>

definition nameChar :: "nat \<Rightarrow> bool" where
  "nameChar c \<longleftrightarrow> \<not> isQuote c \<and> \<not> isSpace c \<and> c \<noteq> 44"

definition fieldNameAt :: "jstring \<Rightarrow> jstring option" where
  "fieldNameAt s =
     (if toLowerCase (take 5 s) = js ''field'' then
        (let r1 = drop 5 s;
             r2 = (case r1 of c # cs \<Rightarrow> if lowerChar c = 115 then cs else r1 | [] \<Rightarrow> r1);
             r3 = dropWhile isSpace r2;
             r4 = (case r3 of c # cs \<Rightarrow> if isQuote c then cs else r3 | [] \<Rightarrow> r3)
         in if r2 \<noteq> [] \<and> isSpace (hd r2) \<and> takeWhile nameChar r4 \<noteq> []
            then Some (takeWhile nameChar r4) else None)
      else None)"

fun fieldNameIn :: "jstring \<Rightarrow> jstring option" where
  "fieldNameIn [] = None"
| "fieldNameIn (c # cs) =
     (case fieldNameAt (c # cs) of Some name \<Rightarrow> Some name | None \<Rightarrow> fieldNameIn cs)"

subsection \<open>The messages\<close>

definition unknownFieldMessage :: "jstring \<Rightarrow> jstring" where
  "unknownFieldMessage field =
     js ''Unknown field: '' @ [34] @ field @ [34]
     @ js ''. Please check your field mappings in the configuration section.''"

definition linkedRecordHint :: jstring where
  "linkedRecordHint = js '' The field appears to be a Linked Record type, but a URL was provided. Change the field type in Airtable to URL or Attachment.''"

definition arrayHint :: jstring where
  "arrayHint = js '' The field expects an array format. Check the field type in Airtable.''"

definition optionsMessage :: "jstring \<Rightarrow> jstring" where
  "optionsMessage errorMsg =
     js ''Permission Error: Your Airtable API token doesn'' @ [39]
     @ js ''t have permission to create new select options. To fix this:'' @ [10, 10]
     @ js ''1. Go to https://airtable.com/create/tokens'' @ [10]
     @ js ''2. Edit your token to add the '' @ [34] @ js ''schema.bases:write'' @ [34] @ js '' scope'' @ [10]
     @ js ''3. Or manually add the missing value to your Single Select field in Airtable'' @ [10, 10]
     @ js ''Details: '' @ errorMsg"

subsection \<open>parseAirtableError\<close>

text \<open>
  A method of strings (\<^verbatim>\<open>match\<close>, \<^verbatim>\<open>toLowerCase\<close>) called on a value that is not a
  string throws a \<^verbatim>\<open>TypeError\<close>: the value has no such method.
\<close>

definition asString :: "jsval \<Rightarrow> exn + jstring" where
  "asString v = (case v of JStr s \<Rightarrow> Inr s | _ \<Rightarrow> Inl TypeError)"

text \<open>\<^verbatim>\<open>v || ''\<close>.\<close>

definition orEmpty :: "jsval \<Rightarrow> jsval" where
  "orEmpty v = (if truthy v then v else JStr [])"

text \<open>The chain over \<^verbatim>\<open>errorType\<close>, for an error of the body that is an object.\<close>

definition classify :: "runtime \<Rightarrow> jsval \<Rightarrow> jsval \<Rightarrow> errorInfo \<Rightarrow> exn + errorInfo" where
  "classify rt errorType errorMsg info =
     (if errorType = JStr (js ''UNKNOWN_FIELD_NAME'') then
        (case asString errorMsg of
           Inl e \<Rightarrow> Inl e
         | Inr m \<Rightarrow>
             (case quotedName m of
                Some field \<Rightarrow>
                  Inr \<lparr>message = JStr (unknownFieldMessage field),
                       unknownFields = unknownFields info @ [field],
                       fieldErrors = fieldErrors info
                         @ [(field, js ''Field does not exist in Airtable table'')]\<rparr>
              | None \<Rightarrow> Inr (info\<lparr>message := JStr (js ''Unknown field error. '' @ m)\<rparr>)))
      else if errorType = JStr (js ''INVALID_VALUE_FOR_COLUMN'') then
        (case asString errorMsg of
           Inl e \<Rightarrow> Inl e
         | Inr m \<Rightarrow>
             (let typeHint =
                    (if includesStr (toLowerCase m) (js ''record id'') then linkedRecordHint
                     else if includesStr (toLowerCase m) (js ''array'') then arrayHint
                     else [])
              in case fieldNameIn m of
                   Some field \<Rightarrow>
                     Inr (info\<lparr>message := JStr (js ''Invalid data type for field '' @ [34] @ field
                                  @ [34] @ js ''.'' @ typeHint @ js '' Details: '' @ m),
                               fieldErrors := fieldErrors info
                                 @ [(field, js ''Invalid data type for this field'' @ typeHint)]\<rparr>)
                 | None \<Rightarrow> Inr (info\<lparr>message := JStr (js ''Invalid data type error. '' @ m)\<rparr>)))
      else if errorType = JStr (js ''INVALID_MULTIPLE_CHOICE_OPTIONS'') then
        (case asString errorMsg of
           Inl e \<Rightarrow> Inl e
         | Inr m \<Rightarrow> Inr (info\<lparr>message := JStr (optionsMessage m)\<rparr>))
      else if errorType = JStr (js ''INVALID_REQUEST_UNKNOWN'')
              \<or> errorType = JStr (js ''INVALID_REQUEST_BODY'') then
        (case toString rt (if truthy errorMsg then errorMsg
                           else JStr (js ''Please verify your data and field mappings'')) of
           Inl e \<Rightarrow> Inl e
         | Inr shown \<Rightarrow>
             (case asString errorMsg of
                Inl e \<Rightarrow> Inl e
              | Inr m \<Rightarrow>
                  (case fieldNameIn m of
                     Some field \<Rightarrow>
                       Inr (info\<lparr>message := JStr (js ''Invalid data format: '' @ shown),
                                 fieldErrors := fieldErrors info @ [(field, m)]\<rparr>)
                   | None \<Rightarrow> Inr (info\<lparr>message := JStr (js ''Invalid data format: '' @ shown)\<rparr>))))
      else if errorType = JStr (js ''INVALID_PERMISSIONS'') then
        (case toString rt errorMsg of
           Inl e \<Rightarrow> Inl e
         | Inr shown \<Rightarrow>
             Inr (info\<lparr>message := JStr (js ''Permission denied: '' @ shown
                          @ js ''. Check your API token permissions.'')\<rparr>))
      else if errorType = JStr (js ''NOT_FOUND'') then
        (case toString rt errorMsg of
           Inl e \<Rightarrow> Inl e
         | Inr shown \<Rightarrow>
             Inr (info\<lparr>message := JStr (js ''Resource not found: '' @ shown
                          @ js ''. Please verify your Base ID and Table ID.'')\<rparr>))
      else if truthy errorMsg then Inr (info\<lparr>message := errorMsg\<rparr>)
      else Inr info)"

text \<open>The status codes, looked for in the message of the error.\<close>

definition statusMessage :: "jstring \<Rightarrow> jsval \<Rightarrow> jsval" where
  "statusMessage m current =
     (if includesStr m (js ''401'') then
        JStr (js ''Invalid API token. Please check your Airtable configuration.'')
      else if includesStr m (js ''403'') then
        JStr (js ''Permission denied. Check your API token permissions.'')
      else if includesStr m (js ''404'') then
        JStr (js ''Base or table not found. Please verify your Base ID and Table ID.'')
      else if includesStr m (js ''422'') then
        JStr (js ''Invalid data format. Check your field mappings and ensure field types match.'')
      else if includesStr m (js ''429'') then
        JStr (js ''Rate limit exceeded. Please wait a moment before trying again.'')
      else if includesStr m (js ''network'') then
        JStr (js ''Network error. Please check your internet connection.'')
      else current)"

definition isObject :: "jsval \<Rightarrow> bool" where
  "isObject v \<longleftrightarrow> truthy v \<and> typeof v = js ''object''"

definition parseAirtableError :: "runtime \<Rightarrow> jsError \<Rightarrow> jsval \<Rightarrow> jsval \<Rightarrow> exn + errorInfo" where
  "parseAirtableError rt error responseData sentFields =
     (let info = \<lparr>message = JStr (errorMessage error), unknownFields = [], fieldErrors = []\<rparr> in
      case (if isObject responseData then
              (let airtableError = propOf responseData (js ''error'') in
               if isObject airtableError then
                 classify rt (orEmpty (propOf airtableError (js ''type'')))
                   (orEmpty (propOf airtableError (js ''message''))) info
               else if truthy (propOf responseData (js ''message''))
               then Inr (info\<lparr>message := propOf responseData (js ''message'')\<rparr>)
               else Inr info)
            else Inr info)
      of Inl e \<Rightarrow> Inl e
       | Inr parsed \<Rightarrow> Inr (parsed\<lparr>message := statusMessage (errorMessage error) (message parsed)\<rparr>))"

text \<open>
  The value that ends up as \<^verbatim>\<open>errorMsg\<close>, or is read as \<^verbatim>\<open>responseData.message\<close>,
  when the body is an object: the message of its error when that is an object, and else
  its own message.
\<close>

definition bodyMessage :: "jsval \<Rightarrow> jsval" where
  "bodyMessage responseData =
     (if isObject responseData then
        (if isObject (propOf responseData (js ''error''))
         then propOf (propOf responseData (js ''error'')) (js ''message'')
         else propOf responseData (js ''message''))
      else JUndefined)"


subsection \<open>Totality\<close>

lemma statusMessage_string: "isString current \<Longrightarrow> isString (statusMessage m current)"
  by (simp add: statusMessage_def)

lemma orEmpty_string: "truthy v \<longrightarrow> isString v \<Longrightarrow> \<exists>m. orEmpty v = JStr m"
  by (cases v) (simp_all add: orEmpty_def)

lemma classify_string:
  assumes "isString (message info)"
  shows "\<exists>parsed. classify rt errorType (JStr m) info = Inr parsed \<and> isString (message parsed)"
  using assms by (simp add: classify_def asString_def Let_def split: option.split)

lemma bodyMessage_error:
  "isObject responseData \<Longrightarrow> isObject (propOf responseData (js ''error''))
   \<Longrightarrow> bodyMessage responseData = propOf (propOf responseData (js ''error'')) (js ''message'')"
  by (simp add: bodyMessage_def)

lemma bodyMessage_own:
  "isObject responseData \<Longrightarrow> \<not> isObject (propOf responseData (js ''error''))
   \<Longrightarrow> bodyMessage responseData = propOf responseData (js ''message'')"
  by (simp add: bodyMessage_def)

text \<open>
  C10. \<^verbatim>\<open>parseAirtableError\<close> returns, and does not throw, a result with a message
  that is a string and with the lists \<^verbatim>\<open>unknownFields\<close> and \<^verbatim>\<open>fieldErrors\<close>,
  for every error, every set of sent fields and every body of the response (also
  \<^verbatim>\<open>null\<close>, a value that is no object, and an object with no \<^verbatim>\<open>error\<close>) in which
  the message that is read, the one of the error when that is an object and else the
  one of the body, is missing, falsy or a string.
\<close>

theorem parseAirtableError_total:
  assumes "truthy (bodyMessage responseData) \<longrightarrow> isString (bodyMessage responseData)"
  shows "\<exists>info. parseAirtableError rt error responseData sentFields = Inr info
           \<and> isString (message info)"
proof -
  let ?info = "\<lparr>message = JStr (errorMessage error), unknownFields = [], fieldErrors = []\<rparr>"
  let ?e = "propOf responseData (js ''error'')"
  consider (none) "\<not> isObject responseData"
    | (err) "isObject responseData" "isObject ?e"
    | (own) "isObject responseData" "\<not> isObject ?e"
    by blast
  then show ?thesis
  proof cases
    case none
    then show ?thesis
      by (simp add: parseAirtableError_def statusMessage_string)
  next
    case err
    from assms err have "truthy (propOf ?e (js ''message'')) \<longrightarrow> isString (propOf ?e (js ''message''))"
      by (simp add: bodyMessage_error)
    then obtain m where m: "orEmpty (propOf ?e (js ''message'')) = JStr m"
      using orEmpty_string by blast
    obtain parsed where p: "classify rt (orEmpty (propOf ?e (js ''type''))) (JStr m) ?info = Inr parsed"
      and s: "isString (message parsed)"
      using classify_string [of ?info rt "orEmpty (propOf ?e (js ''type''))" m] by auto
    from err m p s show ?thesis
      by (simp add: parseAirtableError_def Let_def statusMessage_string)
  next
    case own
    from assms own have "truthy (propOf responseData (js ''message''))
        \<longrightarrow> isString (propOf responseData (js ''message''))"
      by (simp add: bodyMessage_own)
    with own show ?thesis
      by (simp add: parseAirtableError_def Let_def statusMessage_string)
  qed
qed


subsection \<open>Examples\<close>

definition badRequest :: jsError where
  "badRequest = \<lparr>errorMessage = js ''HTTP 400: Bad Request''\<rparr>"

definition unknownFieldText :: jstring where
  "unknownFieldText = js ''Unknown field name: '' @ [34] @ js ''Compny'' @ [34]"

definition unknownFieldBody :: jsval where
  "unknownFieldBody =
     JObj [(js ''error'', JObj [(js ''type'', JStr (js ''UNKNOWN_FIELD_NAME'')),
                                (js ''message'', JStr unknownFieldText)])]"

definition nestedMessageBody :: jsval where
  "nestedMessageBody =
     JObj [(js ''error'', JObj [(js ''type'', JStr (js ''UNKNOWN_FIELD_NAME'')),
                                (js ''message'', JObj [(js ''field'', JStr (js ''Compny''))])])]"

definition gatewayBody :: jsval where
  "gatewayBody = JObj [(js ''message'', JObj [(js ''text'', JStr (js ''Bad Request''))])]"

lemmas parse_eval = parseAirtableError_def isObject_def getProp_def orEmpty_def classify_def
  asString_def statusMessage_def startsWith_def js_def

lemma badRequest_status: "statusMessage (errorMessage badRequest) current = current"
  by (simp add: badRequest_def statusMessage_def startsWith_def js_def)

lemma unknownField_name: "quotedName unknownFieldText = Some (js ''Compny'')"
  by (simp add: unknownFieldText_def js_def)

lemma unknownField_result:
  "parseAirtableError rt badRequest unknownFieldBody JNull
     = Inr \<lparr>message = JStr (unknownFieldMessage (js ''Compny'')),
            unknownFields = [js ''Compny''],
            fieldErrors = [(js ''Compny'', js ''Field does not exist in Airtable table'')]\<rparr>"
proof -
  have e: "propOf unknownFieldBody (js ''error'')
      = JObj [(js ''type'', JStr (js ''UNKNOWN_FIELD_NAME'')),
              (js ''message'', JStr unknownFieldText)]"
    by (simp add: unknownFieldBody_def getProp_def js_def)
  have o: "isObject unknownFieldBody"
    by (simp add: unknownFieldBody_def isObject_def)
  have t: "orEmpty (propOf (propOf unknownFieldBody (js ''error'')) (js ''type''))
      = JStr (js ''UNKNOWN_FIELD_NAME'')"
    unfolding e by (simp add: getProp_def orEmpty_def js_def)
  have m: "orEmpty (propOf (propOf unknownFieldBody (js ''error'')) (js ''message''))
      = JStr unknownFieldText"
    unfolding e by (simp add: getProp_def orEmpty_def js_def)
  have o': "isObject (propOf unknownFieldBody (js ''error''))"
    unfolding e by (simp add: isObject_def)
  show ?thesis
    unfolding parseAirtableError_def Let_def t m
    by (simp add: o o' classify_def asString_def unknownField_name badRequest_status)
qed

text \<open>
  The theorem at the body \<^verbatim>\<open>{error: {type: 'UNKNOWN_FIELD_NAME', message: 'Unknown field
  name: "Compny"'}}\<close>, whose message is a string.
\<close>

theorem parseAirtableError_total_witness:
  "\<forall>rt. isString (bodyMessage unknownFieldBody)
     \<and> (\<exists>info. parseAirtableError rt badRequest unknownFieldBody JNull = Inr info
           \<and> isString (message info))"
proof
  fix rt
  have b: "isString (bodyMessage unknownFieldBody)"
    by (simp add: bodyMessage_def unknownFieldBody_def isObject_def getProp_def js_def)
  with parseAirtableError_total [of unknownFieldBody rt badRequest JNull]
  show "isString (bodyMessage unknownFieldBody)
     \<and> (\<exists>info. parseAirtableError rt badRequest unknownFieldBody JNull = Inr info
           \<and> isString (message info))"
    by simp
qed

text \<open>
  Without the condition on the message, C10 fails. With an object for the message of the
  error, \<^verbatim>\<open>errorMsg.match\<close> is no function and the call throws a
  \<^verbatim>\<open>TypeError\<close>. With a body that has no \<^verbatim>\<open>error\<close> and an object for its
  \<^verbatim>\<open>message\<close>, that object is returned as the message of the result.
\<close>

theorem parseAirtableError_counterexample:
  "(\<forall>rt. parseAirtableError rt badRequest nestedMessageBody JNull = Inl TypeError)
   \<and> (\<forall>rt. parseAirtableError rt badRequest gatewayBody JNull
          = Inr \<lparr>message = JObj [(js ''text'', JStr (js ''Bad Request''))],
                 unknownFields = [], fieldErrors = []\<rparr>)
   \<and> \<not> isString (JObj [(js ''text'', JStr (js ''Bad Request''))])"
proof (intro conjI allI)
  fix rt
  have e: "propOf nestedMessageBody (js ''error'')
      = JObj [(js ''type'', JStr (js ''UNKNOWN_FIELD_NAME'')),
              (js ''message'', JObj [(js ''field'', JStr (js ''Compny''))])]"
    by (simp add: nestedMessageBody_def getProp_def js_def)
  have t: "orEmpty (propOf (propOf nestedMessageBody (js ''error'')) (js ''type''))
      = JStr (js ''UNKNOWN_FIELD_NAME'')"
    unfolding e by (simp add: getProp_def orEmpty_def js_def)
  have m: "orEmpty (propOf (propOf nestedMessageBody (js ''error'')) (js ''message''))
      = JObj [(js ''field'', JStr (js ''Compny''))]"
    unfolding e by (simp add: getProp_def orEmpty_def js_def)
  have o: "isObject nestedMessageBody" "isObject (propOf nestedMessageBody (js ''error''))"
    unfolding e by (simp_all add: nestedMessageBody_def isObject_def)
  show "parseAirtableError rt badRequest nestedMessageBody JNull = Inl TypeError"
    unfolding parseAirtableError_def Let_def t m
    by (simp add: o classify_def asString_def)
next
  fix rt
  have e: "propOf gatewayBody (js ''error'') = JUndefined"
    by (simp add: gatewayBody_def getProp_def js_def)
  have m: "propOf gatewayBody (js ''message'') = JObj [(js ''text'', JStr (js ''Bad Request''))]"
    by (simp add: gatewayBody_def getProp_def js_def)
  have o: "isObject gatewayBody" "\<not> isObject (propOf gatewayBody (js ''error''))"
    unfolding e by (simp_all add: gatewayBody_def isObject_def)
  show "parseAirtableError rt badRequest gatewayBody JNull
          = Inr \<lparr>message = JObj [(js ''text'', JStr (js ''Bad Request''))],
                 unknownFields = [], fieldErrors = []\<rparr>"
    unfolding parseAirtableError_def Let_def m
    by (simp add: o badRequest_status)
next
  show "\<not> isString (JObj [(js ''text'', JStr (js ''Bad Request''))])"
    by simp
qed


definition invalidValueText :: jstring where
  "invalidValueText = js ''Field '' @ [34] @ js ''Company'' @ [34] @ js '' cannot accept the provided value''"

lemma invalidValue_name: "fieldNameIn invalidValueText = Some (js ''Company'')"
  by (simp add: invalidValueText_def fieldNameAt_def toLowerCase_def lowerChar_def isSpace_def
        isQuote_def nameChar_def js_def)

lemma no_name: "fieldNameIn (js ''fieldset is wrong'') = None"
  by (simp add: fieldNameAt_def toLowerCase_def lowerChar_def isSpace_def
        isQuote_def nameChar_def js_def)

section \<open>Content validators (content.js)\<close>

subsection \<open>Regular expressions\<close>

text \<open>
  The validators decide by \<^verbatim>\<open>pattern.test(text)\<close>, which asks whether some part of the
  text is in the language of the pattern. The patterns of this file use literals,
  classes, alternatives, repetition and the anchors \<^verbatim>\<open>^\<close> and \<^verbatim>\<open>$\<close>, and no
  back-references or look-around, so a matcher for regular languages decides the test.
  The matcher takes derivatives: \<open>deriv c r\<close> matches the rest of what \<open>r\<close> matches
  after the code unit \<open>c\<close>.
\<close>

datatype rx =
    RNone
  | REps
  | RAtom "nat \<Rightarrow> bool"
  | RAlt rx rx
  | RSeq rx rx
  | RStar rx

fun nullable :: "rx \<Rightarrow> bool" where
  "nullable RNone = False"
| "nullable REps = True"
| "nullable (RAtom p) = False"
| "nullable (RAlt r s) = (nullable r \<or> nullable s)"
| "nullable (RSeq r s) = (nullable r \<and> nullable s)"
| "nullable (RStar r) = True"

text \<open>Sums and products that drop the expressions that match nothing.\<close>

fun alt :: "rx \<Rightarrow> rx \<Rightarrow> rx" where
  "alt RNone s = s"
| "alt r RNone = r"
| "alt r s = RAlt r s"

fun seq :: "rx \<Rightarrow> rx \<Rightarrow> rx" where
  "seq RNone s = RNone"
| "seq REps s = s"
| "seq r s = RSeq r s"

fun deriv :: "nat \<Rightarrow> rx \<Rightarrow> rx" where
  "deriv c RNone = RNone"
| "deriv c REps = RNone"
| "deriv c (RAtom p) = (if p c then REps else RNone)"
| "deriv c (RAlt r s) = alt (deriv c r) (deriv c s)"
| "deriv c (RSeq r s) =
     (if nullable r then alt (seq (deriv c r) s) (deriv c s) else seq (deriv c r) s)"
| "deriv c (RStar r) = seq (deriv c r) (RStar r)"

fun matches :: "rx \<Rightarrow> jstring \<Rightarrow> bool" where
  "matches r [] = nullable r"
| "matches r (c # cs) = matches (deriv c r) cs"

subsection \<open>The notation of the patterns\<close>

text \<open>
  All patterns of the validators carry the flag \<^verbatim>\<open>i\<close>: a letter of the pattern matches
  both its cases. Without the flag \<^verbatim>\<open>u\<close>, no code unit outside ASCII matches an ASCII
  letter.
\<close>

definition chr :: "nat \<Rightarrow> rx" where
  "chr a = RAtom (\<lambda>c. lowerChar c = lowerChar a)"

definition lit :: "string \<Rightarrow> rx" where
  "lit w = foldr (\<lambda>a r. RSeq (chr (of_char a)) r) w REps"

definition oneOf :: "rx list \<Rightarrow> rx" where
  "oneOf rs = foldr RAlt rs RNone"

definition lits :: "string list \<Rightarrow> rx" where
  "lits ws = oneOf (map lit ws)"

definition optional :: "rx \<Rightarrow> rx" where
  "optional r = RAlt r REps"

definition oneOrMore :: "rx \<Rightarrow> rx" where
  "oneOrMore r = RSeq r (RStar r)"

definition inOrder :: "rx list \<Rightarrow> rx" where
  "inOrder rs = foldr RSeq rs REps"

definition digit :: rx where
  "digit = RAtom isDigit"

definition space :: rx where
  "space = RAtom isSpace"

text \<open>\<^verbatim>\<open>.\<close> matches every code unit that is not a line terminator.\<close>

definition dot :: rx where
  "dot = RAtom (\<lambda>c. c \<notin> {10, 13, 8232, 8233})"

definition anything :: rx where
  "anything = RStar (RAtom (\<lambda>c. True))"

text \<open>The class of the hyphen and the en dash (U+2013).\<close>

definition dash :: rx where
  "dash = RAtom (\<lambda>c. c = 45 \<or> c = 8211)"

text \<open>
  The four ways a pattern is anchored: \<^verbatim>\<open>/^r$/\<close>, \<^verbatim>\<open>/^r/\<close>, \<^verbatim>\<open>/r$/\<close> and
  \<^verbatim>\<open>/r/\<close>.
\<close>

definition whole :: "rx \<Rightarrow> jstring \<Rightarrow> bool" where
  "whole r text = matches r text"

definition atStart :: "rx \<Rightarrow> jstring \<Rightarrow> bool" where
  "atStart r text = matches (RSeq r anything) text"

definition atEnd :: "rx \<Rightarrow> jstring \<Rightarrow> bool" where
  "atEnd r text = matches (RSeq anything r) text"

definition somewhere :: "rx \<Rightarrow> jstring \<Rightarrow> bool" where
  "somewhere r text = matches (RSeq anything (RSeq r anything)) text"

subsection \<open>isConnectionDegreeText\<close>

definition connectionPatterns :: "(jstring \<Rightarrow> bool) list" where
  "connectionPatterns =
     [somewhere (inOrder [oneOrMore digit, lits [''st'', ''nd'', ''rd'', ''th''], RStar space, lit ''degree'']),
      somewhere (inOrder [oneOrMore digit, RStar space, lit ''connection'']),
      somewhere (lit ''mutual connection''),
      somewhere (lit ''follow''),
      somewhere (lit ''message''),
      somewhere (lit ''connect'')]"

definition isConnectionDegreeText :: "jstring \<Rightarrow> bool" where
  "isConnectionDegreeText text = list_ex (\<lambda>pattern. pattern text) connectionPatterns"

subsection \<open>isValidCompanyName\<close>

definition employmentTypePatterns :: "(jstring \<Rightarrow> bool) list" where
  "employmentTypePatterns =
     [whole (lits [''Full-time'', ''Part-time'', ''Contract'', ''Freelance'', ''Internship'',
                    ''Self-employed'']),
      whole (inOrder [RAtom (\<lambda>c. c = 183), RStar space,
                      lits [''Full-time'', ''Part-time'', ''Contract'', ''Freelance'', ''Internship'']])]"

definition months :: rx where
  "months = lits [''Jan'', ''Feb'', ''Mar'', ''Apr'', ''May'', ''Jun'', ''Jul'', ''Aug'', ''Sep'',
                   ''Oct'', ''Nov'', ''Dec'']"

definition year :: rx where
  "year = inOrder [digit, digit, digit, digit]"

definition datePatterns :: "(jstring \<Rightarrow> bool) list" where
  "datePatterns =
     [whole (inOrder [year, RStar space, dash, RStar space,
                      RAlt year (lits [''Present'', ''Current''])]),
      atStart (inOrder [months, oneOrMore space, year]),
      whole (inOrder [oneOrMore digit, RStar space, lit ''yr'', optional (lit ''s''), RStar space,
                      RStar digit, RStar space, lit ''mo'', optional (lit ''s'')]),
      whole (inOrder [oneOrMore digit, RStar space, lit ''yr'', optional (lit ''s'')])]"

definition jobTitlePatterns :: "(jstring \<Rightarrow> bool) list" where
  "jobTitlePatterns =
     [atStart (lits [''Senior'', ''Junior'', ''Lead'', ''Principal'', ''Chief'', ''Head of'',
                      ''Director of'', ''Manager of'', ''Associate'']),
      atEnd (lit ''Engineer''),
      atEnd (lit ''Developer''),
      atEnd (lit ''Designer''),
      atEnd (lit ''Analyst''),
      atEnd (lit ''Consultant''),
      atEnd (lit ''Specialist'')]"

text \<open>The counter of the loop over \<^verbatim>\<open>jobTitlePatterns\<close>.\<close>

definition jobTitleScore :: "jstring \<Rightarrow> nat" where
  "jobTitleScore text = length (filter (\<lambda>pattern. pattern text) jobTitlePatterns)"

definition companyUiElements :: "(jstring \<Rightarrow> bool) list" where
  "companyUiElements =
     [whole (lits [''Message'', ''Connect'', ''Follow'', ''More'', ''Experience'', ''Show all'',
                    ''See less'']),
      whole (lits [''Edit'', ''Delete'', ''Add'', ''Remove'']),
      whole (lit ''Company name'')]"

definition isValidCompanyName :: "jstring \<Rightarrow> bool" where
  "isValidCompanyName text =
     (if text = [] \<or> length text < 2 then False
      else if length text > 150 then False
      else if list_ex (\<lambda>pattern. pattern text) employmentTypePatterns then False
      else if list_ex (\<lambda>pattern. pattern text) datePatterns then False
      else if jobTitleScore text \<ge> 2 then False
      else if list_ex (\<lambda>pattern. pattern text) companyUiElements then False
      else if isConnectionDegreeText text then False
      else True)"

subsection \<open>isValidJobTitle\<close>

definition dateOnlyPatterns :: "(jstring \<Rightarrow> bool) list" where
  "dateOnlyPatterns =
     [whole (inOrder [year, RStar space, dash, RStar space,
                      RAlt year (lits [''Present'', ''Current''])]),
      whole (inOrder [months, oneOrMore space, year, RStar space, dash, RStar dot]),
      whole (inOrder [oneOrMore digit, RStar space, lit ''yr'', optional (lit ''s''), RStar space,
                      RStar digit, RStar space, lit ''mo'', optional (lit ''s'')])]"

definition titleUiElements :: "(jstring \<Rightarrow> bool) list" where
  "titleUiElements =
     [whole (lits [''Message'', ''Connect'', ''Follow'', ''More'', ''Experience'', ''Show all'',
                   ''See less'']),
      whole (inOrder [oneOrMore digit, lits [''st'', ''nd'', ''rd'', ''th''], RStar space]),
      whole (lits [''Edit'', ''Delete'', ''Add'', ''Remove''])]"

text \<open>\<^verbatim>\<open>[A-Z\s&,\.]\<close>, with the flag \<^verbatim>\<open>i\<close>.\<close>

definition companyChar :: rx where
  "companyChar = RAtom (\<lambda>c. (97 \<le> lowerChar c \<and> lowerChar c \<le> 122)
                          \<or> isSpace c \<or> c = 38 \<or> c = 44 \<or> c = 46)"

definition companyPatterns :: "(jstring \<Rightarrow> bool) list" where
  "companyPatterns =
     [whole (inOrder [oneOrMore companyChar, oneOrMore space,
                      lits [''Inc.'', ''LLC'', ''Ltd.'', ''Corp.'', ''Corporation'', ''Company'']])]"

definition isValidJobTitle :: "jstring \<Rightarrow> bool" where
  "isValidJobTitle text =
     (if text = [] \<or> length text < 2 then False
      else if length text > 200 then False
      else if list_ex (\<lambda>pattern. pattern text) dateOnlyPatterns then False
      else if isConnectionDegreeText text then False
      else if list_ex (\<lambda>pattern. pattern text) titleUiElements then False
      else if list_ex (\<lambda>pattern. pattern text) companyPatterns then False
      else True)"

section \<open>Locator cascades (content.js)\<close>

text \<open>
  \<^verbatim>\<open>cleanText\<close>: white space collapsed, new lines replaced (none is left by then),
  trimmed, and cut at 1000 code units.
\<close>

definition cleanText :: "jstring \<Rightarrow> jstring" where
  "cleanText text =
     (if text = [] then []
      else take 1000 (trim (map (\<lambda>c. if c = 10 then 32 else c) (collapseSpaces text))))"

text \<open>
  The document, as the loops see it: \<^verbatim>\<open>document.querySelector(selector)\<close> finds no
  element, or finds one, of which the loops read \<^verbatim>\<open>textContent\<close>. The loop of
  \<^verbatim>\<open>extractJobTitle\<close> and that of \<^verbatim>\<open>extractCompany\<close> differ in the validator and
  in the list of selectors; the result is the pair of the variables they set, the text and
  \<^verbatim>\<open>matchedSelector\<close>.
\<close>

type_synonym document = "jstring \<Rightarrow> jstring option"

fun cascade :: "(jstring \<Rightarrow> bool) \<Rightarrow> document \<Rightarrow> jstring list \<Rightarrow> jstring \<times> jstring option" where
  "cascade valid doc [] = ([], None)"
| "cascade valid doc (selector # selectors) =
     (case doc selector of
        None \<Rightarrow> cascade valid doc selectors
      | Some textContent \<Rightarrow>
          (let text = cleanText textContent in
           if valid text then (text, Some selector) else cascade valid doc selectors))"

definition jobTitleCascade :: "document \<Rightarrow> jstring list \<Rightarrow> jstring \<times> jstring option" where
  "jobTitleCascade doc selectors = cascade isValidJobTitle doc selectors"

definition companyCascade :: "document \<Rightarrow> jstring list \<Rightarrow> jstring \<times> jstring option" where
  "companyCascade doc selectors = cascade isValidCompanyName doc selectors"

text \<open>A selector selects when it finds an element whose cleaned text passes the validator.\<close>

definition selects :: "(jstring \<Rightarrow> bool) \<Rightarrow> document \<Rightarrow> jstring \<Rightarrow> bool" where
  "selects valid doc selector =
     (case doc selector of None \<Rightarrow> False | Some textContent \<Rightarrow> valid (cleanText textContent))"

definition textAt :: "document \<Rightarrow> jstring \<Rightarrow> jstring" where
  "textAt doc selector = (case doc selector of None \<Rightarrow> [] | Some textContent \<Rightarrow> cleanText textContent)"

text \<open>The rules of \<^verbatim>\<open>isValidCompanyName\<close> other than the score of job-title patterns.\<close>

definition otherRulesPass :: "jstring \<Rightarrow> bool" where
  "otherRulesPass text \<longleftrightarrow>
     \<not> (text = [] \<or> length text < 2) \<and> \<not> length text > 150
     \<and> \<not> list_ex (\<lambda>pattern. pattern text) employmentTypePatterns
     \<and> \<not> list_ex (\<lambda>pattern. pattern text) datePatterns
     \<and> \<not> list_ex (\<lambda>pattern. pattern text) companyUiElements
     \<and> \<not> isConnectionDegreeText text"

lemmas rx_eval = whole_def atStart_def atEnd_def somewhere_def lit_def lits_def oneOf_def
  inOrder_def optional_def oneOrMore_def digit_def space_def dot_def anything_def dash_def chr_def
  lowerChar_def isDigit_def isSpace_def months_def year_def js_def

lemma sse_score: "jobTitleScore (js ''Senior Software Engineer'') = 2"
  by (simp add: jobTitleScore_def jobTitlePatterns_def rx_eval)


lemma sse_length: "length (js ''Senior Software Engineer'') = 24"
  by (simp add: js_def)

lemma sse_employment: "\<not> list_ex (\<lambda>pattern. pattern (js ''Senior Software Engineer'')) employmentTypePatterns"
  by (simp add: employmentTypePatterns_def rx_eval)

lemma sse_date: "\<not> list_ex (\<lambda>pattern. pattern (js ''Senior Software Engineer'')) datePatterns"
  by (simp add: datePatterns_def rx_eval)

lemma ec_length: "length (js ''Engineering Corp'') = 16"
  by (simp add: js_def)

lemma ec_employment: "\<not> list_ex (\<lambda>pattern. pattern (js ''Engineering Corp'')) employmentTypePatterns"
  by (simp add: employmentTypePatterns_def rx_eval)

lemma ec_date: "\<not> list_ex (\<lambda>pattern. pattern (js ''Engineering Corp'')) datePatterns"
  by (simp add: datePatterns_def rx_eval)

lemma ec_score: "jobTitleScore (js ''Engineering Corp'') = 0"
  by (simp add: jobTitleScore_def jobTitlePatterns_def rx_eval)

lemma ec_ui: "\<not> list_ex (\<lambda>pattern. pattern (js ''Engineering Corp'')) companyUiElements"
  by (simp add: companyUiElements_def rx_eval)

lemma ec_connection: "\<not> isConnectionDegreeText (js ''Engineering Corp'')"
  by (simp add: isConnectionDegreeText_def connectionPatterns_def rx_eval)

lemma ec_nonempty: "js ''Engineering Corp'' \<noteq> []"
  by (simp add: js_def)

lemma ec_valid: "isValidCompanyName (js ''Engineering Corp'')"
  by (simp add: isValidCompanyName_def ec_nonempty ec_length ec_employment ec_date ec_score ec_ui ec_connection)

lemma sse_invalid: "\<not> isValidCompanyName (js ''Senior Software Engineer'')"
  by (simp add: isValidCompanyName_def sse_score)


lemma sl_score: "jobTitleScore (js ''Senior Living Group'') = 1"
  by (simp add: jobTitleScore_def jobTitlePatterns_def rx_eval)

lemma sl_length: "length (js ''Senior Living Group'') = 19" "js ''Senior Living Group'' \<noteq> []"
  by (simp_all add: js_def)

lemma sl_employment: "\<not> list_ex (\<lambda>pattern. pattern (js ''Senior Living Group'')) employmentTypePatterns"
  by (simp add: employmentTypePatterns_def rx_eval)

lemma sl_date: "\<not> list_ex (\<lambda>pattern. pattern (js ''Senior Living Group'')) datePatterns"
  by (simp add: datePatterns_def rx_eval)

lemma sl_ui: "\<not> list_ex (\<lambda>pattern. pattern (js ''Senior Living Group'')) companyUiElements"
  by (simp add: companyUiElements_def rx_eval)

lemma sl_connection: "\<not> isConnectionDegreeText (js ''Senior Living Group'')"
  by (simp add: isConnectionDegreeText_def connectionPatterns_def rx_eval)

lemma ft_score: "jobTitleScore (js ''Full-time'') = 0"
  by (simp add: jobTitleScore_def jobTitlePatterns_def rx_eval)

lemma ft_employment: "list_ex (\<lambda>pattern. pattern (js ''Full-time'')) employmentTypePatterns"
  by (simp add: employmentTypePatterns_def rx_eval)

lemma pc_score: "jobTitleScore (js ''Principal Connectivity Group'') = 1"
  by (simp add: jobTitleScore_def jobTitlePatterns_def rx_eval)

lemma pc_connection: "isConnectionDegreeText (js ''Principal Connectivity Group'')"
  by (simp add: isConnectionDegreeText_def connectionPatterns_def rx_eval)

text \<open>
  C4, as amended. \<^verbatim>\<open>isValidCompanyName\<close> rejects every candidate whose score of
  job-title patterns is 2 or more. A candidate with a lower score, 1 in particular, is
  accepted exactly when the other rules (length, employment type, date or duration,
  interface element, connection-degree text) let it pass: its score rejects nothing.
  \<^verbatim>\<open>Senior Software Engineer\<close> has score 2 and is rejected;
  \<^verbatim>\<open>Engineering Corp\<close> has score 0 and is accepted.
\<close>

theorem company_score_threshold:
  "(jobTitleScore text \<ge> 2 \<longrightarrow> \<not> isValidCompanyName text)
   \<and> (jobTitleScore text < 2 \<longrightarrow> isValidCompanyName text = otherRulesPass text)
   \<and> jobTitleScore (js ''Senior Software Engineer'') = 2
   \<and> \<not> isValidCompanyName (js ''Senior Software Engineer'')
   \<and> jobTitleScore (js ''Engineering Corp'') \<le> 1
   \<and> isValidCompanyName (js ''Engineering Corp'')"
proof -
  have a: "jobTitleScore text \<ge> 2 \<longrightarrow> \<not> isValidCompanyName text"
    by (simp add: isValidCompanyName_def)
  have b: "jobTitleScore text < 2 \<longrightarrow> isValidCompanyName text = otherRulesPass text"
    by (auto simp: isValidCompanyName_def otherRulesPass_def)
  from a b sse_score sse_invalid ec_score ec_valid show ?thesis by simp
qed

theorem company_score_threshold_witness:
  "jobTitleScore (js ''Senior Living Group'') = 1
   \<and> otherRulesPass (js ''Senior Living Group'')
   \<and> isValidCompanyName (js ''Senior Living Group'')
   \<and> jobTitleScore (js ''Senior Software Engineer'') \<ge> 2
   \<and> \<not> isValidCompanyName (js ''Senior Software Engineer'')"
proof -
  have o: "otherRulesPass (js ''Senior Living Group'')"
    by (simp add: otherRulesPass_def sl_length sl_employment sl_date sl_ui sl_connection)
  from company_score_threshold [of "js ''Senior Living Group''"]
       company_score_threshold [of "js ''Senior Software Engineer''"] o sl_score sse_score
  show ?thesis by simp
qed

text \<open>
  C4 as stated fails: the validator has other rules. \<^verbatim>\<open>Full-time\<close> is rejected with
  score 0, as an employment type, and \<^verbatim>\<open>Principal Connectivity Group\<close> is rejected
  with score exactly 1, as connection-degree text (it holds \<^verbatim>\<open>connect\<close>).
\<close>

theorem company_score_counterexample:
  "jobTitleScore (js ''Full-time'') = 0 \<and> \<not> isValidCompanyName (js ''Full-time'')
   \<and> jobTitleScore (js ''Principal Connectivity Group'') = 1
   \<and> \<not> isValidCompanyName (js ''Principal Connectivity Group'')"
proof -
  have 1: "\<not> isValidCompanyName (js ''Full-time'')"
    using ft_employment by (simp add: isValidCompanyName_def)
  have 2: "\<not> isValidCompanyName (js ''Principal Connectivity Group'')"
    using pc_connection by (simp add: isValidCompanyName_def)
  from 1 2 ft_score pc_score show ?thesis by simp
qed

subsection \<open>The first selector that selects\<close>

lemma cascade_find:
  "cascade valid doc selectors =
     (case find (selects valid doc) selectors of
        None \<Rightarrow> ([], None)
      | Some selector \<Rightarrow> (textAt doc selector, Some selector))"
  by (induction selectors) (auto simp: selects_def textAt_def Let_def split: option.splits)

lemma cascade_skip:
  "\<not> selects valid doc selector \<Longrightarrow> cascade valid doc (selector # selectors) = cascade valid doc selectors"
  by (auto simp: selects_def Let_def split: option.splits)

text \<open>
  C3. The loop of \<^verbatim>\<open>extractJobTitle\<close> and the loop of \<^verbatim>\<open>extractCompany\<close> end with
  the cleaned text of the first selector of the list that finds an element whose text
  passes the validator of the field, and with that selector; they end with the empty
  text when there is none. A selector that finds an element whose text fails the
  validator changes nothing: the loop goes on with the next selector.
\<close>

theorem cascade_selects_first_valid:
  "jobTitleCascade doc selectors =
     (case find (selects isValidJobTitle doc) selectors of
        None \<Rightarrow> ([], None)
      | Some selector \<Rightarrow> (textAt doc selector, Some selector))
   \<and> companyCascade doc selectors =
     (case find (selects isValidCompanyName doc) selectors of
        None \<Rightarrow> ([], None)
      | Some selector \<Rightarrow> (textAt doc selector, Some selector))
   \<and> (doc s = Some textContent \<and> \<not> isValidJobTitle (cleanText textContent) \<longrightarrow>
        jobTitleCascade doc (before @ s # after) =
          (if list_ex (selects isValidJobTitle doc) before then jobTitleCascade doc before
           else jobTitleCascade doc after))
   \<and> (doc s = Some textContent \<and> \<not> isValidCompanyName (cleanText textContent) \<longrightarrow>
        companyCascade doc (before @ s # after) =
          (if list_ex (selects isValidCompanyName doc) before then companyCascade doc before
           else companyCascade doc after))"
proof -
  have skip: "cascade valid doc (before @ s # after) =
          (if list_ex (selects valid doc) before then cascade valid doc before
           else cascade valid doc after)"
    if "doc s = Some textContent" "\<not> valid (cleanText textContent)" for valid
  proof -
    have n: "\<not> selects valid doc s" using that by (simp add: selects_def)
    show ?thesis
    proof (induction before)
      case Nil
      show ?case using n by (simp add: cascade_skip del: cascade.simps)
    next
      case (Cons b bs)
      show ?case
      proof (cases "selects valid doc b")
        case True
        then show ?thesis
          by (auto simp: selects_def Let_def split: option.splits)
      next
        case False
        with Cons show ?thesis
          by (simp add: cascade_skip del: cascade.simps)
      qed
    qed
  qed
  show ?thesis
    unfolding jobTitleCascade_def companyCascade_def
    using skip [of isValidJobTitle] skip [of isValidCompanyName]
    by (simp add: cascade_find [symmetric])
qed


definition exampleDoc :: document where
  "exampleDoc = [js ''.t-bold span'' \<mapsto> js ''Message'', js ''.t-bold'' \<mapsto> js '' Software  Engineer '']"

lemma clean_message: "cleanText (js ''Message'') = js ''Message''"
  by (simp add: cleanText_def collapseSpaces_def trim_def isSpace_def js_def)

lemma clean_title: "cleanText (js '' Software  Engineer '') = js ''Software Engineer''"
  by (simp add: cleanText_def collapseSpaces_def trim_def isSpace_def js_def)

lemma message_connection: "isConnectionDegreeText (js ''Message'')"
  by (simp add: isConnectionDegreeText_def connectionPatterns_def rx_eval)

lemma message_length: "length (js ''Message'') = 7" "js ''Message'' \<noteq> []"
  by (simp_all add: js_def)

lemma message_invalid: "\<not> isValidJobTitle (js ''Message'')"
  by (simp add: isValidJobTitle_def message_connection)

lemma title_length: "length (js ''Software Engineer'') = 17" "js ''Software Engineer'' \<noteq> []"
  by (simp_all add: js_def)

lemma title_date: "\<not> list_ex (\<lambda>pattern. pattern (js ''Software Engineer'')) dateOnlyPatterns"
  by (simp add: dateOnlyPatterns_def rx_eval)

lemma title_connection: "\<not> isConnectionDegreeText (js ''Software Engineer'')"
  by (simp add: isConnectionDegreeText_def connectionPatterns_def rx_eval)

lemma title_ui: "\<not> list_ex (\<lambda>pattern. pattern (js ''Software Engineer'')) titleUiElements"
  by (simp add: titleUiElements_def rx_eval)

lemma title_company: "\<not> list_ex (\<lambda>pattern. pattern (js ''Software Engineer'')) companyPatterns"
  by (simp add: companyPatterns_def companyChar_def rx_eval)

lemma title_valid: "isValidJobTitle (js ''Software Engineer'')"
  by (simp add: isValidJobTitle_def title_length title_date title_connection title_ui title_company)

lemma example_selectors: "js ''.t-bold span'' \<noteq> js ''.t-bold''"
  by (simp add: js_def)

theorem cascade_selects_first_valid_witness:
  "exampleDoc (js ''.t-bold span'') = Some (js ''Message'')
   \<and> \<not> isValidJobTitle (cleanText (js ''Message''))
   \<and> jobTitleCascade exampleDoc [js ''.t-bold span'', js ''.t-bold'']
       = (js ''Software Engineer'', Some (js ''.t-bold''))
   \<and> jobTitleCascade exampleDoc ([] @ js ''.t-bold span'' # [js ''.t-bold''])
       = jobTitleCascade exampleDoc [js ''.t-bold'']"
proof -
  have d: "exampleDoc (js ''.t-bold span'') = Some (js ''Message'')"
    using example_selectors by (simp add: exampleDoc_def)
  have d2: "exampleDoc (js ''.t-bold'') = Some (js '' Software  Engineer '')"
    by (simp add: exampleDoc_def)
  have i: "\<not> isValidJobTitle (cleanText (js ''Message''))"
    by (simp add: clean_message message_invalid)
  have s1: "\<not> selects isValidJobTitle exampleDoc (js ''.t-bold span'')"
    by (simp add: selects_def d i)
  have s2: "selects isValidJobTitle exampleDoc (js ''.t-bold'')"
    by (simp add: selects_def d2 clean_title title_valid)
  have f: "find (selects isValidJobTitle exampleDoc) [js ''.t-bold span'', js ''.t-bold''] = Some (js ''.t-bold'')"
    using s1 s2 by simp
  have t: "textAt exampleDoc (js ''.t-bold'') = js ''Software Engineer''"
    by (simp add: textAt_def d2 clean_title)
  note th = cascade_selects_first_valid [of exampleDoc "[js ''.t-bold span'', js ''.t-bold'']"
         "js ''.t-bold span''" "js ''Message''" "[]" "[js ''.t-bold'']"]
  have "jobTitleCascade exampleDoc [js ''.t-bold span'', js ''.t-bold''] =
     (case find (selects isValidJobTitle exampleDoc) [js ''.t-bold span'', js ''.t-bold''] of
        None \<Rightarrow> ([], None)
      | Some selector \<Rightarrow> (textAt exampleDoc selector, Some selector))"
    by (rule th [THEN conjunct1])
  then have c1: "jobTitleCascade exampleDoc [js ''.t-bold span'', js ''.t-bold'']
       = (js ''Software Engineer'', Some (js ''.t-bold''))"
    by (simp only: f option.case t)
  have "jobTitleCascade exampleDoc ([] @ js ''.t-bold span'' # [js ''.t-bold'']) =
          (if list_ex (selects isValidJobTitle exampleDoc) [] then jobTitleCascade exampleDoc []
           else jobTitleCascade exampleDoc [js ''.t-bold''])"
    using th [THEN conjunct2, THEN conjunct2, THEN conjunct1] d i by blast
  then have c2: "jobTitleCascade exampleDoc ([] @ js ''.t-bold span'' # [js ''.t-bold''])
       = jobTitleCascade exampleDoc [js ''.t-bold'']"
    by simp
  from d i c1 c2 show ?thesis by blast
qed

section \<open>Extraction orchestrator: the single-flight guard (content.js)\<close>

text \<open>
  \<^verbatim>\<open>extractProfileData\<close> of \<^verbatim>\<open>LinkedInProfileExtractor\<close> starts with
  \<^verbatim>\<open>if (this.isExtracting) return; this.isExtracting = true;\<close> and ends, in a
  \<^verbatim>\<open>finally\<close> block, with \<^verbatim>\<open>this.isExtracting = false\<close>. Between the two the
  function is suspended at \<^verbatim>\<open>await this.waitForProfileContent()\<close>, where further
  triggers (a message, the initial load, a detected navigation) can call it again.
  The script runs on one cooperative thread, so the test and the assignment of the flag
  are one step: no other call runs between them.

  The state holds the flag of the source and two counters that the source does not
  have, kept only to state the claim: the extractions that are in progress (entered
  the \<^verbatim>\<open>try\<close> block and not yet left it) and the extractions started so far.
\<close>

record extractor =
  isExtracting :: bool
  inProgress :: nat
  started :: nat

definition init_extractor :: extractor where
  "init_extractor = \<lparr>isExtracting = False, inProgress = 0, started = 0\<rparr>"

text \<open>A call of \<^verbatim>\<open>extractProfileData\<close>, up to its first suspension point.\<close>

definition trigger :: "extractor \<Rightarrow> extractor" where
  "trigger s =
     (if isExtracting s then s
      else s\<lparr>isExtracting := True, inProgress := inProgress s + 1, started := started s + 1\<rparr>)"

text \<open>
  The \<^verbatim>\<open>finally\<close> block of an extraction that is in progress: it runs when the
  extraction succeeds and when it throws.
\<close>

definition finish :: "extractor \<Rightarrow> extractor" where
  "finish s = s\<lparr>isExtracting := False, inProgress := inProgress s - 1\<rparr>"

datatype event = Trigger | Finish

text \<open>
  An extraction can only finish when one is in progress; a \<^verbatim>\<open>Finish\<close> event in a
  state with none is not a step of the program and leaves the state as it is.
\<close>

fun step :: "extractor \<Rightarrow> event \<Rightarrow> extractor" where
  "step s Trigger = trigger s"
| "step s Finish = (if inProgress s = 0 then s else finish s)"

definition run :: "event list \<Rightarrow> extractor" where
  "run es = foldl step init_extractor es"

definition single_flight :: "extractor \<Rightarrow> bool" where
  "single_flight s \<longleftrightarrow> inProgress s = (if isExtracting s then 1 else 0)"

lemma single_flight_init: "single_flight init_extractor"
  by (simp add: single_flight_def init_extractor_def)

lemma single_flight_step: "single_flight s \<Longrightarrow> single_flight (step s e)"
  by (cases e) (auto simp: single_flight_def trigger_def finish_def)

lemma single_flight_foldl: "single_flight s \<Longrightarrow> single_flight (foldl step s es)"
  by (induction es arbitrary: s) (simp_all add: single_flight_step)

lemma single_flight_run: "single_flight (run es)"
  unfolding run_def by (rule single_flight_foldl [OF single_flight_init])

text \<open>
  C6. In every state the extractor reaches, at most one extraction is in progress, and
  one is in progress exactly when the flag is set; a trigger that arrives then is
  dropped: it changes nothing in the state, so no second extraction is started and
  nothing is recorded that would start one later.
\<close>

theorem single_flight_guard:
  "inProgress (run es) \<le> 1
   \<and> (isExtracting (run es) \<longleftrightarrow> inProgress (run es) = 1)
   \<and> (isExtracting (run es) \<longrightarrow> run (es @ [Trigger]) = run es)
   \<and> (\<not> isExtracting (run es) \<longrightarrow>
        inProgress (run (es @ [Trigger])) = 1 \<and> started (run (es @ [Trigger])) = started (run es) + 1)"
proof -
  have sf: "single_flight (run es)" by (rule single_flight_run)
  have a: "inProgress (run es) \<le> 1"
    using sf by (simp add: single_flight_def split: if_splits)
  have b: "isExtracting (run es) \<longleftrightarrow> inProgress (run es) = 1"
    using sf by (simp add: single_flight_def split: if_splits)
  have c: "isExtracting (run es) \<longrightarrow> run (es @ [Trigger]) = run es"
    by (simp add: run_def trigger_def)
  have d: "\<not> isExtracting (run es) \<longrightarrow>
        inProgress (run (es @ [Trigger])) = 1 \<and> started (run (es @ [Trigger])) = started (run es) + 1"
    using sf by (simp add: run_def trigger_def single_flight_def)
  from a b c d show ?thesis by blast
qed

theorem single_flight_guard_witness:
  "isExtracting (run [Trigger]) \<and> run ([Trigger] @ [Trigger]) = run [Trigger]
   \<and> inProgress (run [Trigger, Trigger, Finish, Trigger]) = 1
   \<and> started (run [Trigger, Trigger, Finish, Trigger]) = 2"
  using single_flight_guard [of "[Trigger]"]
  by (simp add: run_def trigger_def finish_def init_extractor_def)

end
